theory Spec2Isabelle
  imports Main "HOL-Library.AList"
begin

section \<open>Python values\<close>

text \<open>
  The two modules (\<^verbatim>\<open>cloud/gc_dns.py\<close> and \<^verbatim>\<open>clustering/gke.py\<close>) handle
  parameters, driver objects and decoded JSON. A value is one of Python's scalars,
  a list, a dictionary (an association list, read with \<open>map_of\<close>, written with
  \<open>AList.update\<close>), or a driver object given by its attribute dictionary
  \<^verbatim>\<open>__dict__\<close>.
\<close>

datatype pyval =
    PNone
  | PBool bool
  | PInt int
  | PStr string
  | PList "pyval list"
  | PDict "(string \<times> pyval) list"
  | PObj "(string \<times> pyval) list"

type_synonym pydict = "(string \<times> pyval) list"

text \<open>Truth value testing (\<^verbatim>\<open>if z\<close>, \<^verbatim>\<open>if not x\<close>); the driver's classes define
  neither \<^verbatim>\<open>__len__\<close> nor \<^verbatim>\<open>__nonzero__\<close>, so an object is true.\<close>

fun truthy :: "pyval \<Rightarrow> bool" where
  "truthy PNone = False"
| "truthy (PBool b) = b"
| "truthy (PInt i) = (i \<noteq> 0)"
| "truthy (PStr s) = (s \<noteq> [])"
| "truthy (PList xs) = (xs \<noteq> [])"
| "truthy (PDict kvs) = (kvs \<noteq> [])"
| "truthy (PObj attrs) = True"

fun is_str :: "pyval \<Rightarrow> bool" where
  "is_str (PStr s) = True"
| "is_str _ = False"

text \<open>A module parameter is \<^verbatim>\<open>None\<close> when unset, a string otherwise.\<close>

fun of_opt :: "string option \<Rightarrow> pyval" where
  "of_opt None = PNone"
| "of_opt (Some s) = PStr s"

definition truthy_str :: "string option \<Rightarrow> bool" where
  "truthy_str x = truthy (of_opt x)"

text \<open>The text \<^verbatim>\<open>'%s' % x\<close> of a parameter.\<close>

fun pstr :: "string option \<Rightarrow> string" where
  "pstr None = ''None''"
| "pstr (Some s) = s"

definition quoted :: "string \<Rightarrow> string" where
  "quoted s = [CHR 0x27] @ s @ [CHR 0x27]"

text \<open>\<^verbatim>\<open>s.split(c)\<close> for a one-character separator.\<close>

fun split_on :: "char \<Rightarrow> string \<Rightarrow> string list" where
  "split_on c [] = [[]]"
| "split_on c (x # xs) =
     (if x = c then [] # split_on c xs
      else (case split_on c xs of
              [] \<Rightarrow> [[x]]
            | p # ps \<Rightarrow> (x # p) # ps))"

text \<open>\<^verbatim>\<open>c.join(parts)\<close>, used to state what \<open>split_on\<close> preserves.\<close>

fun join_with :: "char \<Rightarrow> string list \<Rightarrow> string" where
  "join_with c [] = []"
| "join_with c [p] = p"
| "join_with c (p # q # ps) = p @ c # join_with c (q # ps)"

section \<open>The DNS module: \<^verbatim>\<open>cloud/gc_dns.py\<close>\<close>

subsection \<open>Exceptions, results, the driver\<close>

text \<open>
  The exceptions \<^verbatim>\<open>main\<close> tells apart: the two libcloud classes it names, an exception
  that carries an \<^verbatim>\<open>http_code\<close> attribute (\<open>GoogleError\<close>), and any other
  \<^verbatim>\<open>Exception\<close>. \<open>AttributeError\<close> is what Python raises when \<^verbatim>\<open>__dict__\<close> or
  \<^verbatim>\<open>http_code\<close> is missing.
\<close>

datatype dns_exc =
    ZoneDoesNotExistError
  | RecordDoesNotExistError
  | GoogleError int
  | OtherError
  | AttributeError

text \<open>\<^verbatim>\<open>e.http_code\<close>: \<open>None\<close> stands for the AttributeError of the lookup.\<close>

fun http_code :: "dns_exc \<Rightarrow> int option" where
  "http_code (GoogleError n) = Some n"
| "http_code _ = None"

text \<open>
  How the process ends: \<^verbatim>\<open>print json.dumps(output); sys.exit(0)\<close>, or
  \<^verbatim>\<open>module.fail_json(**kwargs)\<close> (the framework prints the mapping and exits
  non-zero), or an exception nobody catches (a traceback, no mapping).
\<close>

datatype 'e outcome =
    Exit0 pydict
  | Fail pydict
  | Uncaught 'e

text \<open>A statement returns, raises, or has called \<^verbatim>\<open>fail_json\<close> (\<^verbatim>\<open>SystemExit\<close>, which
  \<^verbatim>\<open>except Exception\<close> does not catch).\<close>

datatype 'a res =
    Returned 'a
  | Raised dns_exc
  | Failed pydict

text \<open>The driver calls \<^verbatim>\<open>main\<close> makes, with their arguments.\<close>

datatype dns_call =
    GetZone string
  | IterateRecords pyval
  | IterateZones
  | GetRecord string string
  | CreateRecord string pyval string pyval
  | CreateZone pyval pyval
  | DeleteRecord pyval
  | DeleteZone pyval

type_synonym dns_trace = "(dns_call \<times> (dns_exc + pyval)) list"

text \<open>
  The libcloud connection \<^verbatim>\<open>conn\<close> is not part of the module: it is a parameter, a
  record of operations over a provider state \<open>'s\<close>. Each returns a value or raises.
  The two iterators give the list of the items they yield.
\<close>

record 's dns_conn =
  get_zone :: "string \<Rightarrow> 's \<Rightarrow> (dns_exc + pyval) \<times> 's"
  iterate_records :: "pyval \<Rightarrow> 's \<Rightarrow> (dns_exc + pyval list) \<times> 's"
  iterate_zones :: "'s \<Rightarrow> (dns_exc + pyval list) \<times> 's"
  get_record :: "string \<Rightarrow> string \<Rightarrow> 's \<Rightarrow> (dns_exc + pyval) \<times> 's"
  create_record :: "string \<Rightarrow> pyval \<Rightarrow> string \<Rightarrow> pyval \<Rightarrow> 's \<Rightarrow> (dns_exc + pyval) \<times> 's"
  create_zone :: "pyval \<Rightarrow> pyval \<Rightarrow> 's \<Rightarrow> (dns_exc + pyval) \<times> 's"
  delete_record :: "pyval \<Rightarrow> 's \<Rightarrow> (dns_exc + pyval) \<times> 's"
  delete_zone :: "pyval \<Rightarrow> 's \<Rightarrow> (dns_exc + pyval) \<times> 's"

text \<open>
  What a statement can change: the provider, the log of driver calls made so far (kept
  by the model, to state which calls an invocation makes), and the local variable
  \<^verbatim>\<open>output\<close>, which the exception handlers read as the \<^verbatim>\<open>try\<close> block left it.
\<close>

record 's world =
  remote :: 's
  calls :: dns_trace
  output_var :: pydict

type_synonym ('s, 'a) stmt = "'s world \<Rightarrow> 'a res \<times> 's world"

definition return :: "'a \<Rightarrow> ('s, 'a) stmt" where
  "return x = (\<lambda>w. (Returned x, w))"

definition skip :: "('s, unit) stmt" where
  "skip = return ()"

definition raise :: "dns_exc \<Rightarrow> ('s, 'a) stmt" where
  "raise e = (\<lambda>w. (Raised e, w))"

definition bind :: "('s, 'a) stmt \<Rightarrow> ('a \<Rightarrow> ('s, 'b) stmt) \<Rightarrow> ('s, 'b) stmt" where
  "bind m f = (\<lambda>w. case m w of
       (Returned x, w') \<Rightarrow> f x w'
     | (Raised e, w') \<Rightarrow> (Raised e, w')
     | (Failed kw, w') \<Rightarrow> (Failed kw, w'))"

definition seq :: "('s, unit) stmt \<Rightarrow> ('s, 'b) stmt \<Rightarrow> ('s, 'b) stmt" where
  "seq m n = bind m (\<lambda>_. n)"

text \<open>\<^verbatim>\<open>try: m except Exception, e: h e\<close>\<close>

definition catch :: "('s, 'a) stmt \<Rightarrow> (dns_exc \<Rightarrow> ('s, 'a) stmt) \<Rightarrow> ('s, 'a) stmt" where
  "catch m h = (\<lambda>w. case m w of
       (Returned x, w') \<Rightarrow> (Returned x, w')
     | (Raised e, w') \<Rightarrow> h e w'
     | (Failed kw, w') \<Rightarrow> (Failed kw, w'))"

text \<open>A driver call, logged with its reply.\<close>

definition invoke :: "dns_call \<Rightarrow> ('s \<Rightarrow> (dns_exc + pyval) \<times> 's) \<Rightarrow> ('s, pyval) stmt" where
  "invoke c f = (\<lambda>w. case f (remote w) of
       (Inl e, s') \<Rightarrow> (Raised e, w\<lparr>remote := s', calls := calls w @ [(c, Inl e)]\<rparr>)
     | (Inr v, s') \<Rightarrow> (Returned v, w\<lparr>remote := s', calls := calls w @ [(c, Inr v)]\<rparr>))"

text \<open>\<^verbatim>\<open>for x in conn.iterate_...(): xs.append(x)\<close>\<close>

definition invoke_iter ::
  "dns_call \<Rightarrow> ('s \<Rightarrow> (dns_exc + pyval list) \<times> 's) \<Rightarrow> ('s, pyval list) stmt" where
  "invoke_iter c f = (\<lambda>w. case f (remote w) of
       (Inl e, s') \<Rightarrow> (Raised e, w\<lparr>remote := s', calls := calls w @ [(c, Inl e)]\<rparr>)
     | (Inr xs, s') \<Rightarrow>
         (Returned xs, w\<lparr>remote := s', calls := calls w @ [(c, Inr (PList xs))]\<rparr>))"

text \<open>\<^verbatim>\<open>output = to_dict(x)\<close>: nothing is assigned when \<^verbatim>\<open>to_dict\<close> raises.\<close>

definition assign_output :: "dns_exc + pydict \<Rightarrow> ('s, unit) stmt" where
  "assign_output r = (case r of
       Inl e \<Rightarrow> raise e
     | Inr d \<Rightarrow> (\<lambda>w. (Returned (), w\<lparr>output_var := d\<rparr>)))"

text \<open>\<^verbatim>\<open>output[k] = v\<close>\<close>

definition set_item :: "string \<Rightarrow> pyval \<Rightarrow> ('s, unit) stmt" where
  "set_item k v = (\<lambda>w. (Returned (), w\<lparr>output_var := AList.update k v (output_var w)\<rparr>))"

text \<open>\<^verbatim>\<open>module.fail_json(msg=msg, changed=False)\<close>: every call of the DNS module has
  this shape.\<close>

definition fail_json :: "string \<Rightarrow> ('s, 'a) stmt" where
  "fail_json msg = (\<lambda>w. (Failed [(''msg'', PStr msg), (''changed'', PBool False)], w))"

subsection \<open>\<^verbatim>\<open>to_dict\<close>\<close>

fun collect :: "('e + 'a) list \<Rightarrow> 'e + 'a list" where
  "collect [] = Inr []"
| "collect (Inl e # rs) = Inl e"
| "collect (Inr x # rs) = (case collect rs of Inl e \<Rightarrow> Inl e | Inr xs \<Rightarrow> Inr (x # xs))"

lemma map_of_delete_size:
  "map_of (AList.delete d kvs) k = Some (v::pyval) \<Longrightarrow>
   size v < Suc (size_list (size_prod (\<lambda>_. 0) size) kvs)"
  by (induction kvs) (auto split: if_splits)

lemma elem_size: "x \<in> set xs \<Longrightarrow> size (x::pyval) < Suc (size_list size xs)"
  by (induction xs) auto

text \<open>
  The source repeats the same body for a list's elements and for a single object; so
  does the model. A value without \<^verbatim>\<open>__dict__\<close> raises AttributeError.
\<close>

function to_dict :: "pyval \<Rightarrow> dns_exc + pydict" where
  "to_dict (PList lc_obj) =
     (case collect (map (\<lambda>obj. case obj of
              PObj attrs \<Rightarrow>
                (let out = AList.delete ''driver'' attrs in
                 case map_of out ''zone'' of
                   None \<Rightarrow> Inr (PDict out)
                 | Some z \<Rightarrow>
                     if truthy z \<and> \<not> is_str z
                     then (case to_dict z of
                             Inl e \<Rightarrow> Inl e
                           | Inr d \<Rightarrow> Inr (PDict (AList.update ''zone'' (PDict d) out)))
                     else Inr (PDict out))
            | _ \<Rightarrow> Inl AttributeError) lc_obj) of
        Inl e \<Rightarrow> Inl e
      | Inr obj_list \<Rightarrow> Inr [(''items'', PList obj_list)])"
| "to_dict (PObj attrs) =
     (let out = AList.delete ''driver'' attrs in
      case map_of out ''zone'' of
        None \<Rightarrow> Inr out
      | Some z \<Rightarrow>
          if truthy z \<and> \<not> is_str z
          then (case to_dict z of
                  Inl e \<Rightarrow> Inl e
                | Inr d \<Rightarrow> Inr (AList.update ''zone'' (PDict d) out))
          else Inr out)"
| "to_dict PNone = Inl AttributeError"
| "to_dict (PBool b) = Inl AttributeError"
| "to_dict (PInt i) = Inl AttributeError"
| "to_dict (PStr s) = Inl AttributeError"
| "to_dict (PDict kvs) = Inl AttributeError"
  by pat_completeness auto
termination
proof (relation "measure size")
  show "wf (measure size)" by simp
next
  fix lc_obj :: "pyval list" and obj and attrs out :: "(string \<times> pyval) list" and z
  assume "obj \<in> set lc_obj" "obj = PObj attrs" "out = AList.delete ''driver'' attrs"
    "map_of out ''zone'' = Some z"
  then have "map_of (AList.delete ''driver'' attrs) ''zone'' = Some z"
    by blast
  then have "size z < Suc (size_list (size_prod (\<lambda>_. 0) size) attrs)"
    by (rule map_of_delete_size)
  moreover from \<open>obj \<in> set lc_obj\<close> \<open>obj = PObj attrs\<close>
  have "size (PObj attrs) < Suc (size_list size lc_obj)"
    by (simp only: elem_size)
  ultimately show "(z, PList lc_obj) \<in> measure size" by simp
next
  fix attrs out :: "(string \<times> pyval) list" and z
  assume "out = AList.delete ''driver'' attrs" "map_of out ''zone'' = Some z"
  then have "map_of (AList.delete ''driver'' attrs) ''zone'' = Some z"
    by blast
  then have "size z < Suc (size_list (size_prod (\<lambda>_. 0) size) attrs)"
    by (rule map_of_delete_size)
  then show "(z, PObj attrs) \<in> measure size"
    by simp
qed

subsection \<open>\<^verbatim>\<open>main\<close>\<close>

text \<open>\<^verbatim>\<open>module.params\<close>: \<open>command\<close> has a default, the others are \<^verbatim>\<open>None\<close> when unset.\<close>

record dns_params =
  p_command :: string
  p_description :: "string option"
  p_dns_name :: "string option"
  p_name :: "string option"
  p_record :: "string option"
  p_ttl :: "string option"
  p_record_type :: "string option"
  p_value :: "string option"

text \<open>\<^verbatim>\<open>x and x[-1] != "."\<close>\<close>

definition no_trailing_dot :: "string option \<Rightarrow> bool" where
  "no_trailing_dot x = (case x of None \<Rightarrow> False | Some s \<Rightarrow> s \<noteq> [] \<and> last s \<noteq> CHR ''.'')"

text \<open>\<^verbatim>\<open>if not record_type: record_type = "A"\<close>\<close>

definition default_record_type :: "string option \<Rightarrow> string" where
  "default_record_type rt = (if \<not> truthy_str rt then ''A'' else pstr rt)"

text \<open>\<^verbatim>\<open>if not ttl: ttl = 86400\<close>\<close>

definition default_ttl :: "string option \<Rightarrow> pyval" where
  "default_ttl t = (if \<not> truthy_str t then PInt 86400 else of_opt t)"

text \<open>\<^verbatim>\<open>if not value: value = [] else: value = value.split(',')\<close>\<close>

definition rrdatas :: "string option \<Rightarrow> string list" where
  "rrdatas v = (if \<not> truthy_str v then [] else split_on CHR '','' (pstr v))"

definition zone_not_found :: "string option \<Rightarrow> string" where
  "zone_not_found n = ''Zone '' @ quoted (pstr n) @ '' not found''"

definition missing_name :: string where
  "missing_name = ''Missing required '' @ quoted ''name''"

text \<open>Lines 219 to 236. The function \<^verbatim>\<open>unexpected_error_msg\<close> comes from the
  framework's \<^verbatim>\<open>module_utils\<close> and is a parameter (\<open>uem\<close>).\<close>

definition cmd_list ::
  "'s dns_conn \<Rightarrow> (dns_exc \<Rightarrow> string) \<Rightarrow> dns_params \<Rightarrow> ('s, unit) stmt" where
  "cmd_list conn uem P =
     catch
       (if truthy_str (p_name P)
        then bind (invoke (GetZone (pstr (p_name P))) (get_zone conn (pstr (p_name P))))
               (\<lambda>zone. bind (invoke_iter (IterateRecords zone) (iterate_records conn zone))
               (\<lambda>records. assign_output (to_dict (PList records))))
        else bind (invoke_iter IterateZones (iterate_zones conn))
               (\<lambda>zones. assign_output (to_dict (PList zones))))
       (\<lambda>e. case e of
          ZoneDoesNotExistError \<Rightarrow> fail_json (zone_not_found (p_name P))
        | _ \<Rightarrow> fail_json (uem e))"

text \<open>Lines 238 to 258.\<close>

definition cmd_get ::
  "'s dns_conn \<Rightarrow> (dns_exc \<Rightarrow> string) \<Rightarrow> dns_params \<Rightarrow> ('s, unit) stmt" where
  "cmd_get conn uem P =
     (let name = pstr (p_name P); record = pstr (p_record P) in
      seq (if \<not> truthy_str (p_name P) then fail_json missing_name else skip)
        (if truthy_str (p_record P) then
           (let record_type = default_record_type (p_record_type P);
                rec_name = record_type @ '':'' @ record in
            catch
              (bind (invoke (GetRecord name rec_name) (get_record conn name rec_name))
                 (\<lambda>r. assign_output (to_dict r)))
              (\<lambda>e. case e of
                 RecordDoesNotExistError \<Rightarrow>
                   fail_json (''Record '' @ quoted record @ '' of type ''
                              @ quoted record_type @ '' not found in zone '' @ quoted name)
               | _ \<Rightarrow> fail_json (uem e)))
         else
           catch
             (bind (invoke (GetZone name) (get_zone conn name))
                (\<lambda>z. assign_output (to_dict z)))
             (\<lambda>e. case e of
                ZoneDoesNotExistError \<Rightarrow> fail_json (zone_not_found (p_name P))
              | _ \<Rightarrow> fail_json (uem e))))"

text \<open>Lines 260 to 301. In both handlers \<^verbatim>\<open>e.http_code\<close> is read from whatever was
  caught; without the attribute the handler itself raises. The re-fetch of the handlers
  is under no \<^verbatim>\<open>try\<close>.\<close>

definition cmd_create ::
  "'s dns_conn \<Rightarrow> (dns_exc \<Rightarrow> string) \<Rightarrow> dns_params \<Rightarrow> ('s, unit) stmt" where
  "cmd_create conn uem P =
     (let name = pstr (p_name P); record = pstr (p_record P) in
      seq (if \<not> truthy_str (p_name P) then fail_json missing_name else skip)
        (if truthy_str (p_record P) then
           (let record_type = default_record_type (p_record_type P);
                ttl = default_ttl (p_ttl P);
                value = rrdatas (p_value P);
                data = PDict [(''ttl'', ttl), (''rrdatas'', PList (map PStr value))] in
            catch
              (bind (invoke (GetZone name) (get_zone conn name))
                 (\<lambda>zone. bind (invoke (CreateRecord record zone record_type data)
                                  (create_record conn record zone record_type data))
                 (\<lambda>r. seq (assign_output (to_dict r))
                          (set_item ''changed'' (PBool True)))))
              (\<lambda>e. case e of
                 ZoneDoesNotExistError \<Rightarrow> fail_json (zone_not_found (p_name P))
               | _ \<Rightarrow>
                 (case http_code e of
                    None \<Rightarrow> raise AttributeError
                  | Some code \<Rightarrow>
                      if code = 409 then
                        (let rec_name = record_type @ '':'' @ record in
                         bind (invoke (GetRecord name rec_name)
                                 (get_record conn name rec_name))
                           (\<lambda>r. assign_output (to_dict r)))
                      else fail_json (uem e))))
         else
           (let description =
                  (if \<not> truthy_str (p_description P)
                   then ''Managed zone: '' @ pstr (p_dns_name P)
                   else pstr (p_description P));
                extra = PDict [(''name'', PStr name), (''description'', PStr description)] in
            catch
              (bind (invoke (CreateZone (of_opt (p_dns_name P)) extra)
                       (create_zone conn (of_opt (p_dns_name P)) extra))
                 (\<lambda>z. seq (assign_output (to_dict z))
                          (set_item ''changed'' (PBool True))))
              (\<lambda>e. case http_code e of
                 None \<Rightarrow> raise AttributeError
               | Some code \<Rightarrow>
                   if code = 409 then
                     bind (invoke (GetZone name) (get_zone conn name))
                       (\<lambda>zone. bind (invoke (GetZone name) (get_zone conn name))
                       (\<lambda>z. assign_output (to_dict z)))
                   else fail_json (uem e)))))"

text \<open>
  Lines 321 to 333, the handlers of the delete branch. \<open>record_type\<close> is the variable as
  the \<^verbatim>\<open>try\<close> block left it: defaulted on the record path, the parameter otherwise.
\<close>

definition delete_handler ::
  "(dns_exc \<Rightarrow> string) \<Rightarrow> dns_params \<Rightarrow> pyval \<Rightarrow> dns_exc \<Rightarrow> ('s, unit) stmt" where
  "delete_handler uem P record_type e =
     (case e of
        RecordDoesNotExistError \<Rightarrow>
          seq (set_item ''record'' (of_opt (p_record P)))
            (seq (set_item ''record_type'' record_type)
               (set_item ''name'' (of_opt (p_name P))))
      | ZoneDoesNotExistError \<Rightarrow> set_item ''name'' (of_opt (p_name P))
      | _ \<Rightarrow>
          (case http_code e of
             None \<Rightarrow> raise AttributeError
           | Some code \<Rightarrow> if code = 404 then skip else fail_json (uem e)))"

text \<open>Lines 303 to 320. The test \<^verbatim>\<open>if record\<close> cannot raise, so the \<^verbatim>\<open>try\<close> is
  written around each of its branches.\<close>

definition cmd_delete ::
  "'s dns_conn \<Rightarrow> (dns_exc \<Rightarrow> string) \<Rightarrow> dns_params \<Rightarrow> ('s, unit) stmt" where
  "cmd_delete conn uem P =
     (let name = pstr (p_name P); record = pstr (p_record P) in
      seq (if \<not> truthy_str (p_name P) then fail_json missing_name else skip)
        (if truthy_str (p_record P) then
           (let record_type = default_record_type (p_record_type P);
                rec_name = record_type @ '':'' @ record in
            catch
              (bind (invoke (GetRecord name rec_name) (get_record conn name rec_name))
                 (\<lambda>record_match. seq (assign_output (to_dict record_match))
                 (bind (invoke (DeleteRecord record_match) (delete_record conn record_match))
                 (\<lambda>ok. seq (if \<not> truthy ok
                             then fail_json (''Failed to delete record '' @ record)
                             else skip)
                          (set_item ''changed'' (PBool True))))))
              (delete_handler uem P (PStr record_type)))
         else
           catch
             (bind (invoke (GetZone name) (get_zone conn name))
                (\<lambda>zone_match. seq (assign_output (to_dict zone_match))
                (bind (invoke (DeleteZone zone_match) (delete_zone conn zone_match))
                (\<lambda>ok. seq (if \<not> truthy ok
                            then fail_json (''Failed to delete zone '' @ name)
                            else skip)
                         (set_item ''changed'' (PBool True))))))
             (delete_handler uem P (of_opt (p_record_type P)))))"

text \<open>Lines 219 to 337: the dispatch on \<^verbatim>\<open>command\<close>.\<close>

definition dispatch ::
  "'s dns_conn \<Rightarrow> (dns_exc \<Rightarrow> string) \<Rightarrow> dns_params \<Rightarrow> ('s, unit) stmt" where
  "dispatch conn uem P =
     (if p_command P = ''list'' then cmd_list conn uem P
      else if p_command P = ''get'' then cmd_get conn uem P
      else if p_command P = ''create'' then cmd_create conn uem P
      else if p_command P = ''delete'' then cmd_delete conn uem P
      else fail_json (''Unknown command '' @ quoted (p_command P) @ '', must be ''
                      @ quoted ''list'' @ '', '' @ quoted ''get'' @ '', ''
                      @ quoted ''create'' @ '', or '' @ quoted ''delete'' @ ''.''))"

text \<open>Lines 339 to 341.\<close>

definition finish :: "string \<Rightarrow> pydict \<Rightarrow> pydict" where
  "finish command out =
     (let out1 = AList.update ''command'' (PStr command) out in
      if map_of out1 ''changed'' = None
      then AList.update ''changed'' (PBool False) out1
      else out1)"

text \<open>How the process ends after the statements \<open>m\<close> of \<^verbatim>\<open>main\<close>, run in the world \<open>w\<close>:
  lines 339 to 343 when they return, the traceback of an exception nobody caught, or
  the exit that \<^verbatim>\<open>fail_json\<close> made.\<close>

definition ending :: "string \<Rightarrow> ('s, unit) stmt \<Rightarrow> 's world \<Rightarrow> dns_exc outcome \<times> 's world" where
  "ending command m w =
     (case m w of
        (Returned u, w') \<Rightarrow> (Exit0 (finish command (output_var w')), w')
      | (Raised e, w') \<Rightarrow> (Uncaught e, w')
      | (Failed kw, w') \<Rightarrow> (Fail kw, w'))"

text \<open>Lines 211 to 343: the two checks, the dispatch, the output. The connection made
  on line 198 is the parameter \<open>conn\<close>, the provider starts in state \<open>s\<close>.\<close>

definition main_dns ::
  "'s dns_conn \<Rightarrow> (dns_exc \<Rightarrow> string) \<Rightarrow> dns_params \<Rightarrow> 's \<Rightarrow> dns_exc outcome \<times> 's world" where
  "main_dns conn uem P s =
     ending (p_command P)
       (seq (if no_trailing_dot (p_record P)
             then fail_json ''Must specify a valid DNS record name''
             else skip)
          (seq (if no_trailing_dot (p_dns_name P)
                then fail_json ''Must specify a valid dns_name''
                else skip)
             (dispatch conn uem P)))
       \<lparr>remote = s, calls = [], output_var = []\<rparr>"

section \<open>The cluster module: \<^verbatim>\<open>clustering/gke.py\<close>\<close>

subsection \<open>Parameters, exceptions, the API client\<close>

text \<open>\<^verbatim>\<open>module.params.get(k)\<close>\<close>

definition param :: "pydict \<Rightarrow> string \<Rightarrow> pyval" where
  "param P k = (case map_of P k of None \<Rightarrow> PNone | Some v \<Rightarrow> v)"

text \<open>
  \<open>HttpError n\<close> is googleapiclient's \<^verbatim>\<open>HttpError\<close> with \<^verbatim>\<open>e.resp.status == n\<close>;
  \<open>OtherException\<close> is any exception that is not an \<^verbatim>\<open>HttpError\<close>. \<open>KeyError\<close> and
  \<open>TypeError\<close> are raised by the module's own dictionary reads and keyword call.
\<close>

datatype gke_exc =
    HttpError int
  | OtherException
  | KeyError
  | TypeError

text \<open>What the module does to the outside: the three requests on
  \<^verbatim>\<open>gke.projects().zones().clusters()\<close>, each with its reply, and \<^verbatim>\<open>time.sleep\<close>.\<close>

datatype gke_event =
    Create pyval pyval pyval "gke_exc + pydict"
  | Get pyval pyval pyval "gke_exc + pydict"
  | Delete pyval pyval pyval "gke_exc + pydict"
  | Sleep pyval

text \<open>The API client built on line 293 is a parameter: \<^verbatim>\<open>...execute()\<close> returns the
  decoded response or raises.\<close>

record 's gke_api =
  cluster_create :: "pyval \<Rightarrow> pyval \<Rightarrow> pyval \<Rightarrow> 's \<Rightarrow> (gke_exc + pydict) \<times> 's"
  cluster_get :: "pyval \<Rightarrow> pyval \<Rightarrow> pyval \<Rightarrow> 's \<Rightarrow> (gke_exc + pydict) \<times> 's"
  cluster_delete :: "pyval \<Rightarrow> pyval \<Rightarrow> pyval \<Rightarrow> 's \<Rightarrow> (gke_exc + pydict) \<times> 's"

subsection \<open>\<^verbatim>\<open>_make_cluster_body\<close>\<close>

text \<open>\<^verbatim>\<open>if module.params.get(k): d[key] = module.params.get(k)\<close>\<close>

definition set_if :: "pydict \<Rightarrow> string \<Rightarrow> string \<Rightarrow> pydict \<Rightarrow> pydict" where
  "set_if P k key d = (if truthy (param P k) then AList.update key (param P k) d else d)"

definition make_cluster_body :: "pydict \<Rightarrow> pyval" where
  "make_cluster_body P =
     (let cluster = AList.update ''name'' (param P ''name'') [];
          cluster = set_if P ''description'' ''description'' cluster;
          cluster = AList.update ''initialNodeCount'' (param P ''node_count'') cluster;
          nodeConfig = [(''machineType'', param P ''node_config_machine_type''),
                        (''diskSizeGb'', param P ''node_config_disksize''),
                        (''oauthScopes'', param P ''node_config_scopes'')];
          nodeConfig = set_if P ''node_config_metadata'' ''metadata'' nodeConfig;
          cluster = AList.update ''nodeConfig'' (PDict nodeConfig) cluster;
          cluster = AList.update ''masterAuth''
                      (PDict [(''username'', param P ''username''),
                              (''password'', param P ''password'')]) cluster;
          cluster = set_if P ''logging_service'' ''loggingService'' cluster;
          cluster = set_if P ''monitoring_svc'' ''monitoringService'' cluster;
          cluster = set_if P ''network_name'' ''network'' cluster;
          cluster = set_if P ''ipv4_range'' ''clusterIpv4Cidr'' cluster;
          cluster = set_if P ''zone'' ''zone'' cluster
      in PDict [(''cluster'', PDict cluster)])"

subsection \<open>\<^verbatim>\<open>main\<close>\<close>

text \<open>
  \<^verbatim>\<open>module.exit_json(changed=changed, **resp)\<close>: a response that has a key
  \<^verbatim>\<open>changed\<close> of its own makes the call itself raise TypeError.
\<close>

definition exit_json :: "bool \<Rightarrow> pydict \<Rightarrow> gke_exc outcome" where
  "exit_json changed resp =
     (if map_of resp ''changed'' = None
      then Exit0 ((''changed'', PBool changed) # resp)
      else Uncaught TypeError)"

text \<open>
  Lines 322 to 330, the loop after a create. The result is \<open>None\<close> when the loop never
  ends; \<open>Inl\<close> is the end of the process inside the loop, \<open>Inr\<close> the response the loop
  leaves in \<^verbatim>\<open>resp\<close>. Python's \<^verbatim>\<open>%s\<close> conversion of a value is the parameter \<open>str_of\<close>.
  \<^verbatim>\<open>time.sleep\<close> is taken to return.
\<close>

partial_function (option) poll_present ::
  "'s gke_api \<Rightarrow> (pyval \<Rightarrow> string) \<Rightarrow> pydict \<Rightarrow> bool \<Rightarrow> pydict \<Rightarrow> 's \<Rightarrow> gke_event list \<Rightarrow>
   ((gke_exc outcome + pydict) \<times> 's \<times> gke_event list) option" where
  "poll_present api str_of P polling resp s tr =
     (if polling then
        (case cluster_get api (param P ''project_id'') (param P ''zone'') (param P ''name'') s of
           (r, s') \<Rightarrow>
             (let tr' = tr @ [Sleep (param P ''wait_poll_interval''),
                              Get (param P ''project_id'') (param P ''zone'') (param P ''name'') r]
              in case r of
                   Inl e \<Rightarrow> Some (Inl (Uncaught e), s', tr')
                 | Inr resp' \<Rightarrow>
                     (case map_of resp' ''status'' of
                        None \<Rightarrow> Some (Inl (Uncaught KeyError), s', tr')
                      | Some status \<Rightarrow>
                          (let polling' = (if status = PStr ''RUNNING'' then False else polling)
                           in if status \<in> set [PStr ''ERROR'', PStr ''STATUS_UNSPECIFIED'']
                              then (case map_of resp' ''statusMessage'' of
                                      None \<Rightarrow> Some (Inl (Uncaught KeyError), s', tr')
                                    | Some m \<Rightarrow>
                                        Some (Inl (Fail [(''msg'',
                                                PStr (''Error ['' @ str_of status @ '']: ''
                                                      @ quoted (str_of m)))]), s', tr'))
                              else poll_present api str_of P polling' resp' s' tr'))))
      else Some (Inr resp, s, tr))"

declare poll_present.simps [code]

text \<open>Lines 345 to 354, the loop after a delete: it goes on while the fetch succeeds.\<close>

partial_function (option) poll_absent ::
  "'s gke_api \<Rightarrow> pydict \<Rightarrow> bool \<Rightarrow> 's \<Rightarrow> gke_event list \<Rightarrow>
   ((gke_exc outcome + unit) \<times> 's \<times> gke_event list) option" where
  "poll_absent api P polling s tr =
     (if polling then
        (case cluster_get api (param P ''project_id'') (param P ''zone'') (param P ''name'') s of
           (r, s') \<Rightarrow>
             (let tr' = tr @ [Sleep (param P ''wait_poll_interval''),
                              Get (param P ''project_id'') (param P ''zone'') (param P ''name'') r]
              in case r of
                   Inr resp \<Rightarrow> poll_absent api P polling s' tr'
                 | Inl (HttpError status) \<Rightarrow>
                     if status = 404 then poll_absent api P False s' tr'
                     else Some (Inl (Uncaught (HttpError status)), s', tr')
                 | Inl e \<Rightarrow> Some (Inl (Uncaught e), s', tr')))
      else Some (Inr (), s, tr))"

declare poll_absent.simps [code]

text \<open>Lines 322 to 332: the loop, then \<^verbatim>\<open>module.exit_json(changed=changed, **resp)\<close>.\<close>

definition present_tail ::
  "'s gke_api \<Rightarrow> (pyval \<Rightarrow> string) \<Rightarrow> pydict \<Rightarrow> bool \<Rightarrow> bool \<Rightarrow> pydict \<Rightarrow> 's \<Rightarrow> gke_event list \<Rightarrow>
   (gke_exc outcome \<times> 's \<times> gke_event list) option" where
  "present_tail api str_of P changed polling resp s tr =
     (case poll_present api str_of P polling resp s tr of
        None \<Rightarrow> None
      | Some (Inl oc, s', tr') \<Rightarrow> Some (oc, s', tr')
      | Some (Inr resp', s', tr') \<Rightarrow> Some (exit_json changed resp', s', tr'))"

text \<open>Lines 314 to 320, the handler of the create: the fetch it makes is under no
  \<^verbatim>\<open>try\<close>, and \<^verbatim>\<open>changed\<close> is still False.\<close>

definition present_handler ::
  "'s gke_api \<Rightarrow> (pyval \<Rightarrow> string) \<Rightarrow> pydict \<Rightarrow> gke_exc \<Rightarrow> 's \<Rightarrow> gke_event list \<Rightarrow>
   (gke_exc outcome \<times> 's \<times> gke_event list) option" where
  "present_handler api str_of P e s tr =
     (case e of
        HttpError status \<Rightarrow>
          if status = 409 then
            (case cluster_get api (param P ''project_id'') (param P ''zone'') (param P ''name'') s of
               (r, s') \<Rightarrow>
                 (let tr' = tr @ [Get (param P ''project_id'') (param P ''zone'')
                                    (param P ''name'') r]
                  in case r of
                       Inl e' \<Rightarrow> Some (Uncaught e', s', tr')
                     | Inr resp \<Rightarrow> present_tail api str_of P False False resp s' tr'))
          else Some (Uncaught e, s, tr)
      | _ \<Rightarrow> Some (Uncaught e, s, tr))"

text \<open>Lines 306 to 332.\<close>

definition state_present ::
  "'s gke_api \<Rightarrow> (pyval \<Rightarrow> string) \<Rightarrow> pydict \<Rightarrow> 's \<Rightarrow>
   (gke_exc outcome \<times> 's \<times> gke_event list) option" where
  "state_present api str_of P s =
     (let project = param P ''project_id''; zone = param P ''zone''; name = param P ''name'';
          polling = truthy (param P ''wait_for'');
          body = make_cluster_body P
      in case cluster_create api project zone body s of
           (r1, s1) \<Rightarrow>
             (let tr1 = [Create project zone body r1]
              in case r1 of
                   Inl e \<Rightarrow> present_handler api str_of P e s1 tr1
                 | Inr created \<Rightarrow>
                     (case cluster_get api project zone name s1 of
                        (r2, s2) \<Rightarrow>
                          (let tr2 = tr1 @ [Get project zone name r2]
                           in case r2 of
                                Inl e \<Rightarrow> present_handler api str_of P e s2 tr2
                              | Inr resp \<Rightarrow>
                                  present_tail api str_of P True polling resp s2 tr2))))"

text \<open>Lines 334 to 357.\<close>

definition state_absent ::
  "'s gke_api \<Rightarrow> pydict \<Rightarrow> 's \<Rightarrow> (gke_exc outcome \<times> 's \<times> gke_event list) option" where
  "state_absent api P s =
     (let project = param P ''project_id''; zone = param P ''zone''; name = param P ''name'';
          polling = truthy (param P ''wait_for'');
          resp = [(''name'', name), (''zone'', zone), (''status'', PStr ''FOT FOUND'')]
      in case cluster_delete api project zone name s of
           (r, s1) \<Rightarrow>
             (let tr1 = [Delete project zone name r];
                  after = (\<lambda>changed polling.
                     case poll_absent api P polling s1 tr1 of
                       None \<Rightarrow> None
                     | Some (Inl oc, s', tr') \<Rightarrow> Some (oc, s', tr')
                     | Some (Inr u, s', tr') \<Rightarrow> Some (exit_json changed resp, s', tr'))
              in case r of
                   Inr deleted \<Rightarrow> after True polling
                 | Inl (HttpError status) \<Rightarrow>
                     if status = 404 then after False False
                     else Some (Uncaught (HttpError status), s1, tr1)
                 | Inl e \<Rightarrow> Some (Uncaught e, s1, tr1)))"

text \<open>Lines 295 to 359. \<open>None\<close>: the invocation never returns.\<close>

definition main_gke ::
  "'s gke_api \<Rightarrow> (pyval \<Rightarrow> string) \<Rightarrow> pydict \<Rightarrow> 's \<Rightarrow>
   (gke_exc outcome \<times> 's \<times> gke_event list) option" where
  "main_gke api str_of P s =
     (if param P ''state'' = PStr ''present'' then state_present api str_of P s
      else if param P ''state'' = PStr ''absent'' then state_absent api P s
      else Some (Fail [(''msg'', PStr (''Invalid state: '' @ quoted (str_of (param P ''state''))))],
                 s, []))"

section \<open>Simulated providers\<close>

text \<open>
  Inputs for the closed instances below: an in-memory DNS provider that raises what
  libcloud's Google driver raises (the two not-found classes, HTTP 409 for a resource
  that exists already), and a cluster API that answers each fetch from a script.
\<close>

record sim_state =
  sim_zones :: "(string \<times> pyval) list"
  sim_records :: "((string \<times> string) \<times> pyval) list"

definition zone_obj :: "string \<Rightarrow> pyval \<Rightarrow> pyval" where
  "zone_obj n dns = PObj [(''id'', PStr n), (''domain'', dns), (''driver'', PStr ''driver'')]"

definition record_obj :: "string \<Rightarrow> pyval \<Rightarrow> string \<Rightarrow> pyval \<Rightarrow> pyval" where
  "record_obj n z t d =
     PObj [(''id'', PStr (t @ '':'' @ n)), (''name'', PStr n), (''type'', PStr t),
           (''data'', d), (''zone'', z), (''driver'', PStr ''driver'')]"

definition obj_id :: "pyval \<Rightarrow> string" where
  "obj_id v = (case v of
       PObj attrs \<Rightarrow> (case map_of attrs ''id'' of Some (PStr i) \<Rightarrow> i | _ \<Rightarrow> [])
     | _ \<Rightarrow> [])"

definition obj_zone_id :: "pyval \<Rightarrow> string" where
  "obj_zone_id v = (case v of
       PObj attrs \<Rightarrow> (case map_of attrs ''zone'' of Some z \<Rightarrow> obj_id z | None \<Rightarrow> [])
     | _ \<Rightarrow> [])"

definition sim_dns :: "sim_state dns_conn" where
  "sim_dns =
     \<lparr>get_zone = (\<lambda>n s.
        (case map_of (sim_zones s) n of
           None \<Rightarrow> Inl ZoneDoesNotExistError
         | Some z \<Rightarrow> Inr z, s)),
      iterate_records = (\<lambda>z s.
        (Inr (map snd (filter (\<lambda>(k, r). fst k = obj_id z) (sim_records s))), s)),
      iterate_zones = (\<lambda>s. (Inr (map snd (sim_zones s)), s)),
      get_record = (\<lambda>n rn s.
        (case map_of (sim_zones s) n of
           None \<Rightarrow> Inl ZoneDoesNotExistError
         | Some z \<Rightarrow>
             (case map_of (sim_records s) (n, rn) of
                None \<Rightarrow> Inl RecordDoesNotExistError
              | Some r \<Rightarrow> Inr r), s)),
      create_record = (\<lambda>n z t d s.
        (if map_of (sim_records s) (obj_id z, t @ '':'' @ n) = None
         then (Inr (record_obj n z t d),
               s\<lparr>sim_records := sim_records s
                     @ [((obj_id z, t @ '':'' @ n), record_obj n z t d)]\<rparr>)
         else (Inl (GoogleError 409), s))),
      create_zone = (\<lambda>dns extra s.
        (case extra of
           PDict kv \<Rightarrow>
             (case map_of kv ''name'' of
                Some (PStr n) \<Rightarrow>
                  (if map_of (sim_zones s) n = None
                   then (Inr (zone_obj n dns),
                         s\<lparr>sim_zones := sim_zones s @ [(n, zone_obj n dns)]\<rparr>)
                   else (Inl (GoogleError 409), s))
              | _ \<Rightarrow> (Inl OtherError, s))
         | _ \<Rightarrow> (Inl OtherError, s))),
      delete_record = (\<lambda>r s.
        (Inr (PBool True),
         s\<lparr>sim_records := AList.delete (obj_zone_id r, obj_id r) (sim_records s)\<rparr>)),
      delete_zone = (\<lambda>z s.
        (Inr (PBool True), s\<lparr>sim_zones := AList.delete (obj_id z) (sim_zones s)\<rparr>))\<rparr>"

definition sim_uem :: "dns_exc \<Rightarrow> string" where
  "sim_uem e = ''Unexpected response''"

definition no_params :: dns_params where
  "no_params =
     \<lparr>p_command = ''get'', p_description = None, p_dns_name = None, p_name = None,
      p_record = None, p_ttl = None, p_record_type = None, p_value = None\<rparr>"

definition empty_provider :: sim_state where
  "empty_provider = \<lparr>sim_zones = [], sim_records = []\<rparr>"

definition example_zone :: pyval where
  "example_zone = zone_obj ''my-example-zone'' (PStr ''example.com.'')"

definition one_zone :: sim_state where
  "one_zone = \<lparr>sim_zones = [(''my-example-zone'', example_zone)], sim_records = []\<rparr>"

text \<open>The same provider with a \<^verbatim>\<open>delete_zone\<close> that reports failure without
  raising.\<close>

definition refusing_dns :: "sim_state dns_conn" where
  "refusing_dns = sim_dns\<lparr>delete_zone := \<lambda>z s. (Inr (PBool False), s)\<rparr>"

definition delete_example_zone :: dns_params where
  "delete_example_zone = no_params\<lparr>p_command := ''delete'', p_name := Some ''my-example-zone''\<rparr>"

text \<open>The documented example of creating a managed zone.\<close>

definition create_example_zone :: dns_params where
  "create_example_zone =
     no_params\<lparr>p_command := ''create'', p_name := Some ''my-example-zone'',
               p_dns_name := Some ''example.com.'',
               p_description := Some ''My first managed zone''\<rparr>"

text \<open>The cluster API: \<^verbatim>\<open>create\<close> and \<^verbatim>\<open>delete\<close> give the first reply of the state,
  each \<^verbatim>\<open>get\<close> one of the replies that follow; when the script is used up every request
  raises.\<close>

definition script_api :: "(gke_exc + pydict) list gke_api" where
  "script_api =
     \<lparr>cluster_create = (\<lambda>p z b s. case s of [] \<Rightarrow> (Inl OtherException, []) | r # rs \<Rightarrow> (r, rs)),
      cluster_get = (\<lambda>p z n s. case s of [] \<Rightarrow> (Inl OtherException, []) | r # rs \<Rightarrow> (r, rs)),
      cluster_delete = (\<lambda>p z n s. case s of [] \<Rightarrow> (Inl OtherException, []) | r # rs \<Rightarrow> (r, rs))\<rparr>"

definition sim_str :: "pyval \<Rightarrow> string" where
  "sim_str v = (case v of PStr t \<Rightarrow> t | _ \<Rightarrow> ''?'')"

definition with_status :: "string \<Rightarrow> gke_exc + pydict" where
  "with_status t = Inr [(''name'', PStr ''dev-cluster''), (''status'', PStr t)]"

definition failed_cluster :: "gke_exc + pydict" where
  "failed_cluster = Inr [(''name'', PStr ''dev-cluster''), (''status'', PStr ''ERROR''),
                         (''statusMessage'', PStr ''quota exceeded'')]"

definition cluster_params :: "string \<Rightarrow> bool \<Rightarrow> pydict" where
  "cluster_params st wait =
     [(''project_id'', PStr ''my-project''), (''zone'', PStr ''us-central1-f''),
      (''name'', PStr ''dev-cluster''), (''state'', PStr st), (''wait_for'', PBool wait),
      (''wait_poll_interval'', PInt 10)]"

section \<open>Reading the call log\<close>

fun is_create_record :: "dns_call \<Rightarrow> bool" where
  "is_create_record (CreateRecord n z t d) = True"
| "is_create_record _ = False"

text \<open>The record-creation requests an invocation submitted, in order.\<close>

definition create_record_calls :: "dns_trace \<Rightarrow> dns_call list" where
  "create_record_calls tr = filter is_create_record (map fst tr)"

fun is_sleep :: "gke_event \<Rightarrow> bool" where
  "is_sleep (Sleep i) = True"
| "is_sleep _ = False"

text \<open>The number of \<^verbatim>\<open>time.sleep\<close> calls: one for each cycle of a polling loop.\<close>

definition sleeps :: "gke_event list \<Rightarrow> nat" where
  "sleeps tr = length (filter is_sleep tr)"

text \<open>The status fetch \<^verbatim>\<open>cluster_func().get(projectId=project, zone=zone,
  clusterId=name).execute()\<close>, and the fetch made after \<open>k\<close> earlier ones.\<close>

definition fetch :: "'s gke_api \<Rightarrow> pydict \<Rightarrow> 's \<Rightarrow> (gke_exc + pydict) \<times> 's" where
  "fetch api P s =
     cluster_get api (param P ''project_id'') (param P ''zone'') (param P ''name'') s"

primrec nth_fetch :: "'s gke_api \<Rightarrow> pydict \<Rightarrow> 's \<Rightarrow> nat \<Rightarrow> (gke_exc + pydict) \<times> 's" where
  "nth_fetch api P s 0 = fetch api P s"
| "nth_fetch api P s (Suc k) = nth_fetch api P (snd (fetch api P s)) k"

definition fetched_status :: "'s gke_api \<Rightarrow> pydict \<Rightarrow> 's \<Rightarrow> nat \<Rightarrow> pyval option" where
  "fetched_status api P s k =
     (case fst (nth_fetch api P s k) of Inl e \<Rightarrow> None | Inr resp \<Rightarrow> map_of resp ''status'')"

text \<open>A status that is there and is none of the three values the loop reacts to.\<close>

definition in_progress :: "pyval option \<Rightarrow> bool" where
  "in_progress st =
     (case st of
        None \<Rightarrow> False
      | Some v \<Rightarrow> v \<noteq> PStr ''RUNNING'' \<and> v \<noteq> PStr ''ERROR'' \<and> v \<noteq> PStr ''STATUS_UNSPECIFIED'')"

text \<open>What the DNS module takes for "the resource is not there": the two libcloud
  classes, or any exception with \<^verbatim>\<open>http_code\<close> 404.\<close>

definition dns_not_found :: "dns_exc \<Rightarrow> bool" where
  "dns_not_found e =
     (e = ZoneDoesNotExistError \<or> e = RecordDoesNotExistError \<or> e = GoogleError 404)"

text \<open>A fatal end: \<^verbatim>\<open>fail_json\<close>, or an exception nobody caught.\<close>

fun is_fatal :: "'e outcome \<Rightarrow> bool" where
  "is_fatal (Exit0 out) = False"
| "is_fatal (Fail kw) = True"
| "is_fatal (Uncaught e) = True"

subsection \<open>Which calls changed the provider\<close>

text \<open>
  A driver call of the DNS module that the provider accepted: a create call that
  returned, a delete call that returned a true value. \<open>mutated\<close> says that the log has
  one. \<open>unmarked\<close> says that no object the driver returned has an attribute named
  \<^verbatim>\<open>changed\<close> (\<open>to_dict\<close> would copy it into the output).
\<close>

fun accepted :: "dns_call \<times> (dns_exc + pyval) \<Rightarrow> bool" where
  "accepted (CreateRecord n z t d, Inr v) = True"
| "accepted (CreateZone dns extra, Inr v) = True"
| "accepted (DeleteRecord r, Inr v) = truthy v"
| "accepted (DeleteZone z, Inr v) = truthy v"
| "accepted _ = False"

definition mutated :: "dns_trace \<Rightarrow> bool" where
  "mutated tr = list_ex accepted tr"

fun no_changed_attr :: "dns_exc + pyval \<Rightarrow> bool" where
  "no_changed_attr (Inr (PObj attrs)) = (map_of attrs ''changed'' = None)"
| "no_changed_attr _ = True"

definition unmarked :: "dns_trace \<Rightarrow> bool" where
  "unmarked tr = list_all (\<lambda>(c, r). no_changed_attr r) tr"

text \<open>
  For the cluster module \<^verbatim>\<open>changed = True\<close> stands at the end of the \<^verbatim>\<open>try\<close> block:
  the create request and the fetch after it both returned, or the delete request
  returned.
\<close>

fun cluster_mutated :: "gke_event list \<Rightarrow> bool" where
  "cluster_mutated (Create p z b (Inr created) # Get p' z' n (Inr resp) # tr) = True"
| "cluster_mutated (Delete p z n (Inr deleted) # tr) = True"
| "cluster_mutated _ = False"

subsection \<open>Assertions on the statements of the DNS module\<close>

fun is_query :: "dns_call \<Rightarrow> bool" where
  "is_query (GetZone n) = True"
| "is_query (GetRecord n rn) = True"
| "is_query (IterateRecords z) = True"
| "is_query IterateZones = True"
| "is_query _ = False"

fun is_create :: "dns_call \<Rightarrow> bool" where
  "is_create (CreateRecord n z t d) = True"
| "is_create (CreateZone dns extra) = True"
| "is_create _ = False"

fun is_delete :: "dns_call \<Rightarrow> bool" where
  "is_delete (DeleteRecord r) = True"
| "is_delete (DeleteZone z) = True"
| "is_delete _ = False"

text \<open>
  The situations a run of the DNS module passes through, each read under the assumption
  that the log is \<open>unmarked\<close>: \<open>clean\<close> (no accepted call, no key \<^verbatim>\<open>changed\<close> in
  \<^verbatim>\<open>output\<close>), \<open>fresh v\<close> (clean, and \<open>v\<close> was just returned), \<open>accepted_now\<close> (an
  accepted call is in the log), \<open>settled\<close> (\<^verbatim>\<open>output\<close> has \<^verbatim>\<open>changed = True\<close> exactly
  when an accepted call is in the log). \<open>exc e\<close> is what holds when \<open>e\<close> is raised
  inside a \<^verbatim>\<open>try\<close> block. \<open>triple A m Q E\<close>: from a world with \<open>A\<close> the statement \<open>m\<close>
  returns into \<open>Q\<close> or raises into \<open>E\<close>.
\<close>

definition clean :: "'s world \<Rightarrow> bool" where
  "clean w \<longleftrightarrow> (unmarked (calls w) \<longrightarrow>
     \<not> mutated (calls w) \<and> map_of (output_var w) ''changed'' = None)"

definition fresh :: "pyval \<Rightarrow> 's world \<Rightarrow> bool" where
  "fresh v w \<longleftrightarrow> clean w \<and> (unmarked (calls w) \<longrightarrow> no_changed_attr (Inr v))"

definition accepted_now :: "'s world \<Rightarrow> bool" where
  "accepted_now w \<longleftrightarrow> (unmarked (calls w) \<longrightarrow> mutated (calls w))"

definition settled :: "'s world \<Rightarrow> bool" where
  "settled w \<longleftrightarrow> (unmarked (calls w) \<longrightarrow>
     map_of (output_var w) ''changed'' = (if mutated (calls w) then Some (PBool True) else None))"

definition exc :: "dns_exc \<Rightarrow> 's world \<Rightarrow> bool" where
  "exc e w \<longleftrightarrow> e = AttributeError \<or> clean w"

definition triple ::
  "('s world \<Rightarrow> bool) \<Rightarrow> ('s, 'a) stmt \<Rightarrow> ('a \<Rightarrow> 's world \<Rightarrow> bool) \<Rightarrow>
   (dns_exc \<Rightarrow> 's world \<Rightarrow> bool) \<Rightarrow> bool" where
  "triple A m Q E \<longleftrightarrow>
     (\<forall>w. A w \<longrightarrow> (case m w of
                       (Returned x, w') \<Rightarrow> Q x w'
                     | (Raised e, w') \<Rightarrow> E e w'
                     | (Failed kw, w') \<Rightarrow> True))"


text \<open>A statement whose every \<^verbatim>\<open>fail_json\<close> carries a message and
  \<^verbatim>\<open>changed=False\<close>.\<close>

definition sound :: "('s, 'a) stmt \<Rightarrow> bool" where
  "sound m \<longleftrightarrow> (\<forall>w kw w'. m w = (Failed kw, w') \<longrightarrow>
      (\<exists>msg. kw = [(''msg'', PStr msg), (''changed'', PBool False)]))"

section \<open>Properties\<close>

lemmas stmt_defs = return_def skip_def raise_def bind_def seq_def catch_def invoke_def
  invoke_iter_def assign_output_def set_item_def fail_json_def

lemma no_trailing_dot_iff:
  "no_trailing_dot x \<longleftrightarrow> (\<exists>r. x = Some r \<and> r \<noteq> [] \<and> last r \<noteq> CHR ''.'')"
  by (cases x) (simp_all add: no_trailing_dot_def)

subsection \<open>Validation before dispatch\<close>

text \<open>
  C4. When \<^verbatim>\<open>record\<close> or \<^verbatim>\<open>dns_name\<close> is a non-empty string whose last character is
  not a dot, the DNS module ends in \<^verbatim>\<open>fail_json\<close> with a message and
  \<^verbatim>\<open>changed=False\<close>, whatever \<^verbatim>\<open>command\<close> and the other parameters are; the log of
  driver calls is empty and the provider is in the state it started in.
\<close>

theorem validation_before_dispatch:
  assumes "(\<exists>r. p_record P = Some r \<and> r \<noteq> [] \<and> last r \<noteq> CHR ''.'') \<or>
           (\<exists>d. p_dns_name P = Some d \<and> d \<noteq> [] \<and> last d \<noteq> CHR ''.'')"
  shows "\<exists>msg. main_dns conn uem P s =
           (Fail [(''msg'', PStr msg), (''changed'', PBool False)],
            \<lparr>remote = s, calls = [], output_var = []\<rparr>)"
proof -
  from assms have "no_trailing_dot (p_record P) \<or> no_trailing_dot (p_dns_name P)"
    by (simp add: no_trailing_dot_iff)
  then show ?thesis
    by (auto simp: main_dns_def ending_def stmt_defs)
qed

text \<open>A delete of a record named without the dot, on a provider that has the zone.\<close>

theorem validation_before_dispatch_witness:
  "\<exists>msg. main_dns sim_dns sim_uem
       (no_params\<lparr>p_command := ''delete'', p_name := Some ''my-example-zone'',
                  p_record := Some ''www.example.com''\<rparr>) one_zone =
     (Fail [(''msg'', PStr msg), (''changed'', PBool False)],
      \<lparr>remote = one_zone, calls = [], output_var = []\<rparr>)"
  by (rule validation_before_dispatch) (simp add: no_params_def)

subsection \<open>The record-creation request\<close>

lemma split_on_nonempty: "split_on c s \<noteq> []"
  by (induction s) (auto split: list.splits)

lemma join_cons: "join_with c ((x # p) # ps) = x # join_with c (p # ps)"
  by (cases ps) simp_all

lemma join_split: "join_with c (split_on c s) = s"
proof (induction s)
  case Nil
  then show ?case by simp
next
  case (Cons x xs)
  then show ?case
    using split_on_nonempty [of c xs]
    by (cases "split_on c xs") (auto simp: join_cons)
qed

lemma split_no_sep: "p \<in> set (split_on c s) \<Longrightarrow> c \<notin> set p"
  by (induction s arbitrary: p) (auto split: if_splits list.splits)

lemma main_dns_dispatch:
  assumes "\<not> no_trailing_dot (p_record P)" "\<not> no_trailing_dot (p_dns_name P)"
  shows "main_dns conn uem P s =
    ending (p_command P) (dispatch conn uem P) \<lparr>remote = s, calls = [], output_var = []\<rparr>"
  using assms by (simp add: main_dns_def ending_def stmt_defs)

text \<open>
  C7. A \<^verbatim>\<open>create\<close> with a record, on a zone the driver returns, submits exactly one
  \<^verbatim>\<open>create_record\<close> request: for the record and that zone, with type \<^verbatim>\<open>A\<close> when
  \<^verbatim>\<open>record_type\<close> is unset (\<^verbatim>\<open>None\<close> or empty), \<^verbatim>\<open>ttl\<close> 86400 when \<^verbatim>\<open>ttl\<close> is
  unset, and \<^verbatim>\<open>rrdatas\<close> the comma-split of \<^verbatim>\<open>value\<close>, the empty list when \<^verbatim>\<open>value\<close>
  is unset. The split keeps the order: joining its parts with commas gives the value
  back, and no part contains a comma.
\<close>

theorem record_create_request:
  assumes cmd: "p_command P = ''create''"
    and name: "p_name P = Some n" "n \<noteq> []"
    and rec: "p_record P = Some r" "r \<noteq> []" "last r = CHR ''.''"
    and dns: "\<not> no_trailing_dot (p_dns_name P)"
    and zone: "get_zone conn n s = (Inr zone, s1)"
  shows "create_record_calls (calls (snd (main_dns conn uem P s))) =
           [CreateRecord r zone
              (case p_record_type P of None \<Rightarrow> ''A'' | Some t \<Rightarrow> if t = [] then ''A'' else t)
              (PDict [(''ttl'', case p_ttl P of None \<Rightarrow> PInt 86400
                                | Some t \<Rightarrow> if t = [] then PInt 86400 else PStr t),
                      (''rrdatas'', PList (map PStr
                          (case p_value P of None \<Rightarrow> []
                           | Some v \<Rightarrow> if v = [] then [] else split_on CHR '','' v)))])]
         \<and> (\<forall>v. join_with CHR '','' (split_on CHR '','' v) = v
                \<and> (\<forall>p \<in> set (split_on CHR '','' v). CHR '','' \<notin> set p))"
proof -
  have nd: "\<not> no_trailing_dot (p_record P)"
    using rec by (simp add: no_trailing_dot_def)
  have "create_record_calls (calls (snd (main_dns conn uem P s))) =
           [CreateRecord r zone (default_record_type (p_record_type P))
              (PDict [(''ttl'', default_ttl (p_ttl P)),
                      (''rrdatas'', PList (map PStr (rrdatas (p_value P))))])]"
    using cmd name rec zone
    by (simp add: main_dns_dispatch [OF nd dns] dispatch_def cmd_create_def Let_def
        ending_def truthy_str_def stmt_defs create_record_calls_def
        split: prod.splits sum.splits res.splits dns_exc.splits option.splits)
  moreover have "default_record_type (p_record_type P) =
      (case p_record_type P of None \<Rightarrow> ''A'' | Some t \<Rightarrow> if t = [] then ''A'' else t)"
    by (simp add: default_record_type_def truthy_str_def split: option.splits)
  moreover have "default_ttl (p_ttl P) =
      (case p_ttl P of None \<Rightarrow> PInt 86400 | Some t \<Rightarrow> if t = [] then PInt 86400 else PStr t)"
    by (simp add: default_ttl_def truthy_str_def split: option.splits)
  moreover have "rrdatas (p_value P) =
      (case p_value P of None \<Rightarrow> [] | Some v \<Rightarrow> if v = [] then [] else split_on CHR '','' v)"
    by (simp add: rrdatas_def truthy_str_def split: option.splits)
  ultimately show ?thesis
    by (simp add: join_split split_no_sep)
qed

text \<open>The documented example of adding two \<^verbatim>\<open>A\<close> records, without type and ttl.\<close>

theorem record_create_request_witness:
  "create_record_calls (calls (snd (main_dns sim_dns sim_uem
       (no_params\<lparr>p_command := ''create'', p_name := Some ''my-example-zone'',
                  p_record := Some ''foo.example.com.'',
                  p_value := Some ''123.45.67.89,98.76.54.32''\<rparr>) one_zone))) =
     [CreateRecord ''foo.example.com.'' example_zone ''A''
        (PDict [(''ttl'', PInt 86400),
                (''rrdatas'', PList [PStr ''123.45.67.89'', PStr ''98.76.54.32''])])]"
  using record_create_request [of
      "no_params\<lparr>p_command := ''create'', p_name := Some ''my-example-zone'',
                 p_record := Some ''foo.example.com.'',
                 p_value := Some ''123.45.67.89,98.76.54.32''\<rparr>"
      "''my-example-zone''" "''foo.example.com.''" sim_dns one_zone example_zone one_zone sim_uem]
  by (simp add: no_params_def no_trailing_dot_def sim_dns_def one_zone_def)

subsection \<open>The polling loops of the cluster module\<close>

lemma poll_present_stop:
  "poll_present api str_of P False resp s tr = Some (Inr resp, s, tr)"
  by (subst poll_present.simps) simp

lemma poll_present_running:
  assumes "fetch api P s = (Inr resp', s')" "map_of resp' ''status'' = Some (PStr ''RUNNING'')"
  shows "poll_present api str_of P True resp s tr =
           Some (Inr resp', s', tr @ [Sleep (param P ''wait_poll_interval''),
              Get (param P ''project_id'') (param P ''zone'') (param P ''name'') (Inr resp')])"
  using assms
  by (subst poll_present.simps) (simp add: fetch_def poll_present_stop)

lemma poll_present_in_progress:
  assumes "fetch api P s = (Inr resp', s')" "in_progress (map_of resp' ''status'')"
  shows "poll_present api str_of P True resp s tr =
           poll_present api str_of P True resp' s' (tr @ [Sleep (param P ''wait_poll_interval''),
              Get (param P ''project_id'') (param P ''zone'') (param P ''name'') (Inr resp')])"
  using assms
  by (subst poll_present.simps) (auto simp: fetch_def in_progress_def split: option.splits)

lemma poll_present_error:
  assumes "fetch api P s = (Inr resp', s')" "map_of resp' ''status'' = Some st"
    "st = PStr ''ERROR'' \<or> st = PStr ''STATUS_UNSPECIFIED''"
    "map_of resp' ''statusMessage'' = Some m"
  shows "poll_present api str_of P True resp s tr =
           Some (Inl (Fail [(''msg'', PStr (''Error ['' @ str_of st @ '']: '' @ quoted (str_of m)))]),
                 s', tr @ [Sleep (param P ''wait_poll_interval''),
              Get (param P ''project_id'') (param P ''zone'') (param P ''name'') (Inr resp')])"
  using assms
  by (subst poll_present.simps) (auto simp: fetch_def)

lemma fetched_status_0:
  "fetch api P s = (r, s') \<Longrightarrow>
   fetched_status api P s 0 = (case r of Inl e \<Rightarrow> None | Inr resp \<Rightarrow> map_of resp ''status'')"
  by (simp add: fetched_status_def)

lemma fetched_status_Suc:
  "fetch api P s = (r, s') \<Longrightarrow> fetched_status api P s (Suc k) = fetched_status api P s' k"
  by (simp add: fetched_status_def)

lemma poll_present_reaches_running:
  assumes "fetched_status api P s k = Some (PStr ''RUNNING'')"
    and "\<forall>i<k. in_progress (fetched_status api P s i)"
  shows "\<exists>resp' s' tr'. poll_present api str_of P True resp s tr = Some (Inr resp', s', tr')
           \<and> map_of resp' ''status'' = Some (PStr ''RUNNING'')
           \<and> sleeps tr' = sleeps tr + Suc k"
  using assms
proof (induction k arbitrary: s tr resp)
  case 0
  obtain r s1 where f: "fetch api P s = (r, s1)" by (cases "fetch api P s")
  with 0 obtain resp1 where r: "r = Inr resp1" "map_of resp1 ''status'' = Some (PStr ''RUNNING'')"
    by (auto simp: fetched_status_0 split: sum.splits)
  with f show ?case
    by (simp add: poll_present_running sleeps_def)
next
  case (Suc k)
  obtain r s1 where f: "fetch api P s = (r, s1)" by (cases "fetch api P s")
  from Suc.prems(2) have "in_progress (fetched_status api P s 0)" by blast
  with f obtain resp1 where r: "r = Inr resp1" "in_progress (map_of resp1 ''status'')"
    by (auto simp: fetched_status_0 in_progress_def split: sum.splits)
  from Suc.prems(1) f have a: "fetched_status api P s1 k = Some (PStr ''RUNNING'')"
    by (simp add: fetched_status_Suc)
  have b: "\<forall>i<k. in_progress (fetched_status api P s1 i)"
  proof (intro allI impI)
    fix i assume "i < k"
    then have "in_progress (fetched_status api P s (Suc i))" using Suc.prems(2) by simp
    with f show "in_progress (fetched_status api P s1 i)" by (simp add: fetched_status_Suc)
  qed
  from Suc.IH [OF a b]
  obtain resp' s' tr' where
    "poll_present api str_of P True resp1 s1 (tr @ [Sleep (param P ''wait_poll_interval''),
              Get (param P ''project_id'') (param P ''zone'') (param P ''name'') (Inr resp1)])
       = Some (Inr resp', s', tr')"
    "map_of resp' ''status'' = Some (PStr ''RUNNING'')"
    "sleeps tr' = sleeps (tr @ [Sleep (param P ''wait_poll_interval''),
              Get (param P ''project_id'') (param P ''zone'') (param P ''name'') (Inr resp1)]) + Suc k"
    by blast
  with f r show ?case
    by (simp add: poll_present_in_progress sleeps_def)
qed

lemma poll_present_returns_running:
  assumes ret: "poll_present api str_of P polling resp s tr = Some (Inr resp', s', tr')"
    and pol: polling
  shows "\<exists>k. fetched_status api P s k = Some (PStr ''RUNNING'')
              \<and> (\<forall>i<k. in_progress (fetched_status api P s i))"
proof -
  let ?Q = "\<lambda>((((((api, str_of :: pyval \<Rightarrow> string), P), polling), resp :: pydict), s), tr :: gke_event list)
      (y :: (gke_exc outcome + pydict) \<times> 'a \<times> gke_event list).
      polling \<longrightarrow> (\<forall>resp' s' tr'. y = (Inr resp', s', tr') \<longrightarrow>
           (\<exists>k. fetched_status api P s k = Some (PStr ''RUNNING'')
                \<and> (\<forall>i<k. in_progress (fetched_status api P s i))))"
  have "?Q ((((((api, str_of), P), polling), resp), s), tr) (Inr resp', s', tr')"
  proof (rule poll_present.raw_induct [where Pa = ?Q, OF _ ret], goal_cases)
    case (1 f api str_of P polling resp s tr y)
    have IH: "\<And>resp1 s1 tr1 resp' s' tr'.
        f api str_of P True resp1 s1 tr1 = Some (Inr resp', s', tr') \<Longrightarrow>
        \<exists>k. fetched_status api P s1 k = Some (PStr ''RUNNING'')
              \<and> (\<forall>i<k. in_progress (fetched_status api P s1 i))"
      using 1(1) by fastforce
    have eq: "polling \<Longrightarrow> fetch api P s = (r, s1) \<Longrightarrow> y = (Inr resp', s', tr') \<Longrightarrow>
        fetched_status api P s 0 \<noteq> Some (PStr ''RUNNING'') \<Longrightarrow>
        \<exists>resp1. r = Inr resp1 \<and> in_progress (map_of resp1 ''status'') \<and>
          f api str_of P True resp1 s1 (tr @ [Sleep (param P ''wait_poll_interval''),
              Get (param P ''project_id'') (param P ''zone'') (param P ''name'') r]) = Some y"
      for r s1 resp' s' tr'
      using 1(2)
      by (auto simp: fetch_def fetched_status_0 in_progress_def Let_def
            split: sum.splits option.splits if_splits)
    have "\<exists>k. fetched_status api P s k = Some (PStr ''RUNNING'')
                \<and> (\<forall>i<k. in_progress (fetched_status api P s i))"
      if pol: polling and y: "y = (Inr resp', s', tr')" for resp' s' tr'
    proof (cases "fetched_status api P s 0 = Some (PStr ''RUNNING'')")
      case True
      then show ?thesis by (intro exI [of _ 0]) simp
    next
      case False
      obtain r s1 where f: "fetch api P s = (r, s1)" by (cases "fetch api P s")
      from eq [OF pol f y False] obtain resp1 where
        r: "r = Inr resp1" "in_progress (map_of resp1 ''status'')"
        and rec: "f api str_of P True resp1 s1 (tr @ [Sleep (param P ''wait_poll_interval''),
              Get (param P ''project_id'') (param P ''zone'') (param P ''name'') r]) = Some y"
        by blast
      from IH [OF rec [unfolded y]] obtain k where
        k: "fetched_status api P s1 k = Some (PStr ''RUNNING'')"
           "\<forall>i<k. in_progress (fetched_status api P s1 i)"
        by blast
      have "fetched_status api P s (Suc k) = Some (PStr ''RUNNING'')"
        using f k(1) by (simp add: fetched_status_Suc)
      moreover have "\<forall>i<Suc k. in_progress (fetched_status api P s i)"
      proof (intro allI impI)
        fix i assume "i < Suc k"
        show "in_progress (fetched_status api P s i)"
        proof (cases i)
          case 0
          with f r show ?thesis by (simp add: fetched_status_0)
        next
          case (Suc j)
          with \<open>i < Suc k\<close> k(2) f show ?thesis by (simp add: fetched_status_Suc)
        qed
      qed
      ultimately show ?thesis by blast
    qed
    then show ?case by auto
  qed
  with pol show ?thesis by simp
qed


lemma poll_absent_stop: "poll_absent api P False s tr = Some (Inr (), s, tr)"
  by (subst poll_absent.simps) simp

lemma poll_absent_gone:
  assumes "fetch api P s = (Inl (HttpError 404), s')"
  shows "poll_absent api P True s tr =
           Some (Inr (), s', tr @ [Sleep (param P ''wait_poll_interval''),
              Get (param P ''project_id'') (param P ''zone'') (param P ''name'')
                (Inl (HttpError 404))])"
  using assms
  by (subst poll_absent.simps) (simp add: fetch_def poll_absent_stop)

lemma poll_absent_still_there:
  assumes "fetch api P s = (Inr resp, s')"
  shows "poll_absent api P True s tr =
           poll_absent api P True s' (tr @ [Sleep (param P ''wait_poll_interval''),
              Get (param P ''project_id'') (param P ''zone'') (param P ''name'') (Inr resp)])"
  using assms
  by (subst poll_absent.simps) (simp add: fetch_def)

lemma poll_absent_fatal:
  assumes "fetch api P s = (Inl e, s')" "e \<noteq> HttpError 404"
  shows "poll_absent api P True s tr =
           Some (Inl (Uncaught e), s', tr @ [Sleep (param P ''wait_poll_interval''),
              Get (param P ''project_id'') (param P ''zone'') (param P ''name'') (Inl e)])"
  using assms
  by (subst poll_absent.simps) (auto simp: fetch_def Let_def split: gke_exc.splits)

lemma main_gke_created:
  assumes "param P ''state'' = PStr ''present''"
    and "cluster_create api (param P ''project_id'') (param P ''zone'')
               (make_cluster_body P) s = (Inr created, s1)"
    and "fetch api P s1 = (Inr resp, s2)"
  shows "main_gke api str_of P s =
           present_tail api str_of P True (truthy (param P ''wait_for'')) resp s2
             [Create (param P ''project_id'') (param P ''zone'') (make_cluster_body P)
                (Inr created),
              Get (param P ''project_id'') (param P ''zone'') (param P ''name'') (Inr resp)]"
  using assms
  by (simp add: main_gke_def state_present_def fetch_def Let_def)

lemma main_gke_deleted:
  assumes "param P ''state'' = PStr ''absent''"
    and "cluster_delete api (param P ''project_id'') (param P ''zone'') (param P ''name'') s
           = (Inr deleted, s1)"
  shows "main_gke api str_of P s =
           (case poll_absent api P (truthy (param P ''wait_for'')) s1
                   [Delete (param P ''project_id'') (param P ''zone'') (param P ''name'')
                      (Inr deleted)] of
              None \<Rightarrow> None
            | Some (Inl oc, s', tr') \<Rightarrow> Some (oc, s', tr')
            | Some (Inr u, s', tr') \<Rightarrow>
                Some (Exit0 [(''changed'', PBool True), (''name'', param P ''name''),
                             (''zone'', param P ''zone''), (''status'', PStr ''FOT FOUND'')],
                      s', tr'))"
  using assms
  by (simp add: main_gke_def state_absent_def Let_def exit_json_def
      split: option.splits sum.splits prod.splits)

lemma main_gke_already_absent:
  assumes "param P ''state'' = PStr ''absent''"
    and "cluster_delete api (param P ''project_id'') (param P ''zone'') (param P ''name'') s
           = (Inl (HttpError 404), s1)"
  shows "main_gke api str_of P s =
           Some (Exit0 [(''changed'', PBool False), (''name'', param P ''name''),
                        (''zone'', param P ''zone''), (''status'', PStr ''FOT FOUND'')],
                 s1, [Delete (param P ''project_id'') (param P ''zone'') (param P ''name'')
                        (Inl (HttpError 404))])"
  using assms
  by (simp add: main_gke_def state_absent_def Let_def exit_json_def poll_absent_stop)

lemma main_gke_create_raises:
  assumes "param P ''state'' = PStr ''present''"
    and "cluster_create api (param P ''project_id'') (param P ''zone'')
               (make_cluster_body P) s = (Inl e, s1)"
    and "e \<noteq> HttpError 409"
  shows "main_gke api str_of P s =
           Some (Uncaught e, s1,
                 [Create (param P ''project_id'') (param P ''zone'') (make_cluster_body P)
                    (Inl e)])"
  using assms
  by (simp add: main_gke_def state_present_def present_handler_def Let_def
      split: gke_exc.splits)

text \<open>
  C5. Against the scripted client whose fetches answer \<^verbatim>\<open>Pending\<close>, \<^verbatim>\<open>Pending\<close>,
  \<^verbatim>\<open>RUNNING\<close> (the first is the fetch that follows the create), a create with
  \<^verbatim>\<open>wait_for\<close> true sleeps exactly twice, each sleep followed by one fetch, and exits
  with \<^verbatim>\<open>changed=True\<close>. In general the loop of lines 322 to 330 ends with a response
  (and not in \<^verbatim>\<open>fail_json\<close> or an exception) exactly when one of its fetches has status
  \<^verbatim>\<open>RUNNING\<close> and every fetch before it had a status other than \<^verbatim>\<open>RUNNING\<close>,
  \<^verbatim>\<open>ERROR\<close> and \<^verbatim>\<open>STATUS_UNSPECIFIED\<close>; when this is the fetch number \<open>k\<close> (from 0)
  the loop has made \<open>k + 1\<close> cycles and leaves that response.
\<close>

theorem create_polling_until_running:
  "(\<exists>tr. main_gke script_api sim_str (cluster_params ''present'' True)
            [Inr [], with_status ''Pending'', with_status ''Pending'', with_status ''RUNNING'']
          = Some (Exit0 [(''changed'', PBool True), (''name'', PStr ''dev-cluster''),
                         (''status'', PStr ''RUNNING'')], [], tr)
        \<and> sleeps tr = 2
        \<and> tr = [Create (PStr ''my-project'') (PStr ''us-central1-f'')
                   (make_cluster_body (cluster_params ''present'' True)) (Inr []),
                 Get (PStr ''my-project'') (PStr ''us-central1-f'') (PStr ''dev-cluster'')
                   (with_status ''Pending''),
                 Sleep (PInt 10),
                 Get (PStr ''my-project'') (PStr ''us-central1-f'') (PStr ''dev-cluster'')
                   (with_status ''Pending''),
                 Sleep (PInt 10),
                 Get (PStr ''my-project'') (PStr ''us-central1-f'') (PStr ''dev-cluster'')
                   (with_status ''RUNNING'')])
   \<and> ((\<exists>resp' s' tr'. poll_present api str_of P True resp s tr = Some (Inr resp', s', tr'))
        \<longleftrightarrow> (\<exists>k. fetched_status api P s k = Some (PStr ''RUNNING'')
                 \<and> (\<forall>i<k. in_progress (fetched_status api P s i))))
   \<and> (\<forall>k. fetched_status api P s k = Some (PStr ''RUNNING'')
           \<and> (\<forall>i<k. in_progress (fetched_status api P s i))
         \<longrightarrow> (\<exists>resp' s' tr'. poll_present api str_of P True resp s tr = Some (Inr resp', s', tr')
                \<and> map_of resp' ''status'' = Some (PStr ''RUNNING'')
                \<and> sleeps tr' = sleeps tr + Suc k))"
proof (intro conjI)
  show "\<exists>tr. main_gke script_api sim_str (cluster_params ''present'' True)
            [Inr [], with_status ''Pending'', with_status ''Pending'', with_status ''RUNNING'']
          = Some (Exit0 [(''changed'', PBool True), (''name'', PStr ''dev-cluster''),
                         (''status'', PStr ''RUNNING'')], [], tr)
        \<and> sleeps tr = 2
        \<and> tr = [Create (PStr ''my-project'') (PStr ''us-central1-f'')
                   (make_cluster_body (cluster_params ''present'' True)) (Inr []),
                 Get (PStr ''my-project'') (PStr ''us-central1-f'') (PStr ''dev-cluster'')
                   (with_status ''Pending''),
                 Sleep (PInt 10),
                 Get (PStr ''my-project'') (PStr ''us-central1-f'') (PStr ''dev-cluster'')
                   (with_status ''Pending''),
                 Sleep (PInt 10),
                 Get (PStr ''my-project'') (PStr ''us-central1-f'') (PStr ''dev-cluster'')
                   (with_status ''RUNNING'')]"
    by (simp add: main_gke_def state_present_def present_tail_def poll_present.simps
        exit_json_def Let_def cluster_params_def param_def script_api_def with_status_def
        sleeps_def)
next
  show "(\<exists>resp' s' tr'. poll_present api str_of P True resp s tr = Some (Inr resp', s', tr'))
        \<longleftrightarrow> (\<exists>k. fetched_status api P s k = Some (PStr ''RUNNING'')
                 \<and> (\<forall>i<k. in_progress (fetched_status api P s i)))"
    using poll_present_returns_running [of api str_of P True resp s tr]
      poll_present_reaches_running [of api P s _ str_of resp tr]
    by blast
next
  show "\<forall>k. fetched_status api P s k = Some (PStr ''RUNNING'')
           \<and> (\<forall>i<k. in_progress (fetched_status api P s i))
         \<longrightarrow> (\<exists>resp' s' tr'. poll_present api str_of P True resp s tr = Some (Inr resp', s', tr')
                \<and> map_of resp' ''status'' = Some (PStr ''RUNNING'')
                \<and> sleeps tr' = sleeps tr + Suc k)"
    using poll_present_reaches_running [of api P s _ str_of resp tr]
    by blast
qed

text \<open>The loop alone on the script \<^verbatim>\<open>Pending\<close>, \<^verbatim>\<open>RUNNING\<close>: it returns, so by the
  theorem some fetch has status \<^verbatim>\<open>RUNNING\<close> after fetches in progress only.\<close>

theorem create_polling_until_running_witness:
  "\<exists>k. fetched_status script_api (cluster_params ''present'' True)
          [with_status ''Pending'', with_status ''RUNNING''] k = Some (PStr ''RUNNING'')
      \<and> (\<forall>i<k. in_progress (fetched_status script_api (cluster_params ''present'' True)
                     [with_status ''Pending'', with_status ''RUNNING''] i))"
proof -
  have "\<exists>resp' s' tr'. poll_present script_api sim_str (cluster_params ''present'' True) True []
          [with_status ''Pending'', with_status ''RUNNING''] [] = Some (Inr resp', s', tr')"
    by (simp add: poll_present.simps Let_def cluster_params_def param_def script_api_def
        with_status_def)
  then show ?thesis
    using create_polling_until_running [of script_api sim_str "cluster_params ''present'' True"
        "[]" "[with_status ''Pending'', with_status ''RUNNING'']" "[]"]
    by blast
qed

subsection \<open>A create that meets an existing cluster\<close>

text \<open>
  C10. When the create request of the cluster module raises an \<^verbatim>\<open>HttpError\<close> with status
  409 and the fetch in the handler returns the cluster (a response without a key
  \<^verbatim>\<open>changed\<close>), the module exits with that response and \<^verbatim>\<open>changed=False\<close>. The events
  are the create and the one fetch: no sleep and no further fetch, whatever \<^verbatim>\<open>wait_for\<close>
  and the status in the response are.
\<close>

theorem existing_cluster_skips_polling:
  assumes st: "param P ''state'' = PStr ''present''"
    and cr: "cluster_create api (param P ''project_id'') (param P ''zone'')
               (make_cluster_body P) s = (Inl (HttpError 409), s1)"
    and ge: "fetch api P s1 = (Inr resp, s2)"
    and nc: "map_of resp ''changed'' = None"
  shows "\<exists>tr. main_gke api str_of P s = Some (Exit0 ((''changed'', PBool False) # resp), s2, tr)
           \<and> sleeps tr = 0
           \<and> tr = [Create (param P ''project_id'') (param P ''zone'') (make_cluster_body P)
                      (Inl (HttpError 409)),
                    Get (param P ''project_id'') (param P ''zone'') (param P ''name'')
                      (Inr resp)]"
  using assms
  by (simp add: main_gke_def state_present_def present_handler_def present_tail_def
      poll_present_stop exit_json_def Let_def fetch_def sleeps_def)

text \<open>With \<^verbatim>\<open>wait_for\<close> true and an existing cluster that is still being provisioned.\<close>

theorem existing_cluster_skips_polling_witness:
  "\<exists>tr. main_gke script_api sim_str (cluster_params ''present'' True)
           [Inl (HttpError 409), with_status ''PROVISIONING''] =
         Some (Exit0 [(''changed'', PBool False), (''name'', PStr ''dev-cluster''),
                      (''status'', PStr ''PROVISIONING'')], [], tr)
       \<and> sleeps tr = 0
       \<and> tr = [Create (PStr ''my-project'') (PStr ''us-central1-f'')
                  (make_cluster_body (cluster_params ''present'' True)) (Inl (HttpError 409)),
                Get (PStr ''my-project'') (PStr ''us-central1-f'') (PStr ''dev-cluster'')
                  (with_status ''PROVISIONING'')]"
  using existing_cluster_skips_polling [of "cluster_params ''present'' True" script_api
      "[Inl (HttpError 409), with_status ''PROVISIONING'']" "[with_status ''PROVISIONING'']"
      "[(''name'', PStr ''dev-cluster''), (''status'', PStr ''PROVISIONING'')]" "[]" sim_str]
  by (simp add: cluster_params_def param_def script_api_def with_status_def fetch_def)

subsection \<open>How the polling loops fail and end\<close>

lemma present_tail_polling_error:
  assumes "fetch api P s = (Inr resp', s')" "map_of resp' ''status'' = Some st"
    "st = PStr ''ERROR'' \<or> st = PStr ''STATUS_UNSPECIFIED''"
    "map_of resp' ''statusMessage'' = Some m"
  shows "present_tail api str_of P changed True resp s tr =
           Some (Fail [(''msg'', PStr (''Error ['' @ str_of st @ '']: '' @ quoted (str_of m)))],
                 s', tr @ [Sleep (param P ''wait_poll_interval''),
              Get (param P ''project_id'') (param P ''zone'') (param P ''name'') (Inr resp')])"
  by (simp add: present_tail_def poll_present_error [OF assms])

text \<open>
  C6. After a create, a cycle whose fetch has status \<^verbatim>\<open>ERROR\<close> or
  \<^verbatim>\<open>STATUS_UNSPECIFIED\<close> (and a \<^verbatim>\<open>statusMessage\<close>) ends the module in \<^verbatim>\<open>fail_json\<close>
  with the message built from the status and the provider's status message; the event
  log ends with the sleep and the fetch of that cycle. After a delete, a cycle whose
  fetch raises \<^verbatim>\<open>HttpError\<close> 404 ends the loop normally, a cycle whose fetch returns a
  response is followed by the next cycle, and a cycle whose fetch raises anything else
  ends the module with that exception uncaught. The second and the last conjunct tie
  the loops to \<^verbatim>\<open>main\<close>: with \<^verbatim>\<open>wait_for\<close> true these loops are what follows an accepted
  create (and its fetch) and an accepted delete, which then exits with
  \<^verbatim>\<open>changed=True\<close>.
\<close>

theorem polling_failures:
  "(fetch api P s = (Inr resp', s') \<and> map_of resp' ''status'' = Some st
      \<and> (st = PStr ''ERROR'' \<or> st = PStr ''STATUS_UNSPECIFIED'')
      \<and> map_of resp' ''statusMessage'' = Some m
    \<longrightarrow> present_tail api str_of P changed True resp s tr =
          Some (Fail [(''msg'', PStr (''Error ['' @ str_of st @ '']: '' @ quoted (str_of m)))],
                s', tr @ [Sleep (param P ''wait_poll_interval''),
                   Get (param P ''project_id'') (param P ''zone'') (param P ''name'')
                     (Inr resp')]))
   \<and> (param P ''state'' = PStr ''present''
      \<and> cluster_create api (param P ''project_id'') (param P ''zone'') (make_cluster_body P) s0
          = (Inr created, s1)
      \<and> fetch api P s1 = (Inr resp, s) \<and> truthy (param P ''wait_for'')
    \<longrightarrow> main_gke api str_of P s0 =
          present_tail api str_of P True True resp s
            [Create (param P ''project_id'') (param P ''zone'') (make_cluster_body P)
               (Inr created),
             Get (param P ''project_id'') (param P ''zone'') (param P ''name'') (Inr resp)])
   \<and> (fetch api P s = (Inl (HttpError 404), s')
    \<longrightarrow> poll_absent api P True s tr =
          Some (Inr (), s', tr @ [Sleep (param P ''wait_poll_interval''),
                   Get (param P ''project_id'') (param P ''zone'') (param P ''name'')
                     (Inl (HttpError 404))]))
   \<and> (fetch api P s = (Inr resp', s')
    \<longrightarrow> poll_absent api P True s tr =
          poll_absent api P True s' (tr @ [Sleep (param P ''wait_poll_interval''),
                   Get (param P ''project_id'') (param P ''zone'') (param P ''name'')
                     (Inr resp')]))
   \<and> (fetch api P s = (Inl e, s') \<and> e \<noteq> HttpError 404
    \<longrightarrow> poll_absent api P True s tr =
          Some (Inl (Uncaught e), s', tr @ [Sleep (param P ''wait_poll_interval''),
                   Get (param P ''project_id'') (param P ''zone'') (param P ''name'')
                     (Inl e)]))
   \<and> (param P ''state'' = PStr ''absent''
      \<and> cluster_delete api (param P ''project_id'') (param P ''zone'') (param P ''name'') s0
          = (Inr deleted, s)
      \<and> truthy (param P ''wait_for'')
    \<longrightarrow> main_gke api str_of P s0 =
          (case poll_absent api P True s
                  [Delete (param P ''project_id'') (param P ''zone'') (param P ''name'')
                     (Inr deleted)] of
             None \<Rightarrow> None
           | Some (Inl oc, s', tr') \<Rightarrow> Some (oc, s', tr')
           | Some (Inr u, s', tr') \<Rightarrow>
               Some (Exit0 [(''changed'', PBool True), (''name'', param P ''name''),
                            (''zone'', param P ''zone''), (''status'', PStr ''FOT FOUND'')],
                     s', tr')))"
proof (intro conjI impI)
  assume "fetch api P s = (Inr resp', s') \<and> map_of resp' ''status'' = Some st
      \<and> (st = PStr ''ERROR'' \<or> st = PStr ''STATUS_UNSPECIFIED'')
      \<and> map_of resp' ''statusMessage'' = Some m"
  then show "present_tail api str_of P changed True resp s tr =
          Some (Fail [(''msg'', PStr (''Error ['' @ str_of st @ '']: '' @ quoted (str_of m)))],
                s', tr @ [Sleep (param P ''wait_poll_interval''),
                   Get (param P ''project_id'') (param P ''zone'') (param P ''name'')
                     (Inr resp')])"
    by (simp add: present_tail_polling_error)
next
  assume "param P ''state'' = PStr ''present''
      \<and> cluster_create api (param P ''project_id'') (param P ''zone'') (make_cluster_body P) s0
          = (Inr created, s1)
      \<and> fetch api P s1 = (Inr resp, s) \<and> truthy (param P ''wait_for'')"
  then show "main_gke api str_of P s0 =
          present_tail api str_of P True True resp s
            [Create (param P ''project_id'') (param P ''zone'') (make_cluster_body P)
               (Inr created),
             Get (param P ''project_id'') (param P ''zone'') (param P ''name'') (Inr resp)]"
    by (simp add: main_gke_created)
next
  assume "fetch api P s = (Inl (HttpError 404), s')"
  then show "poll_absent api P True s tr =
          Some (Inr (), s', tr @ [Sleep (param P ''wait_poll_interval''),
                   Get (param P ''project_id'') (param P ''zone'') (param P ''name'')
                     (Inl (HttpError 404))])"
    by (rule poll_absent_gone)
next
  assume "fetch api P s = (Inr resp', s')"
  then show "poll_absent api P True s tr =
          poll_absent api P True s' (tr @ [Sleep (param P ''wait_poll_interval''),
                   Get (param P ''project_id'') (param P ''zone'') (param P ''name'')
                     (Inr resp')])"
    by (rule poll_absent_still_there)
next
  assume "fetch api P s = (Inl e, s') \<and> e \<noteq> HttpError 404"
  then show "poll_absent api P True s tr =
          Some (Inl (Uncaught e), s', tr @ [Sleep (param P ''wait_poll_interval''),
                   Get (param P ''project_id'') (param P ''zone'') (param P ''name'')
                     (Inl e)])"
    by (simp add: poll_absent_fatal)
next
  assume "param P ''state'' = PStr ''absent''
      \<and> cluster_delete api (param P ''project_id'') (param P ''zone'') (param P ''name'') s0
          = (Inr deleted, s)
      \<and> truthy (param P ''wait_for'')"
  then show "main_gke api str_of P s0 =
          (case poll_absent api P True s
                  [Delete (param P ''project_id'') (param P ''zone'') (param P ''name'')
                     (Inr deleted)] of
             None \<Rightarrow> None
           | Some (Inl oc, s', tr') \<Rightarrow> Some (oc, s', tr')
           | Some (Inr u, s', tr') \<Rightarrow>
               Some (Exit0 [(''changed'', PBool True), (''name'', param P ''name''),
                            (''zone'', param P ''zone''), (''status'', PStr ''FOT FOUND'')],
                     s', tr'))"
    by (simp add: main_gke_deleted)
qed

text \<open>A create whose second fetch reports \<^verbatim>\<open>ERROR\<close> (the script's \<^verbatim>\<open>RUNNING\<close> is never
  fetched), a delete that polls until 404, and a delete whose poll meets a 503.\<close>

theorem polling_failures_witness:
  "main_gke script_api sim_str (cluster_params ''present'' True)
       [Inr [], with_status ''PROVISIONING'', failed_cluster, with_status ''RUNNING''] =
     Some (Fail [(''msg'', PStr (''Error [ERROR]: '' @ quoted ''quota exceeded''))],
           [with_status ''RUNNING''],
           [Create (PStr ''my-project'') (PStr ''us-central1-f'')
              (make_cluster_body (cluster_params ''present'' True)) (Inr []),
            Get (PStr ''my-project'') (PStr ''us-central1-f'') (PStr ''dev-cluster'')
              (with_status ''PROVISIONING''),
            Sleep (PInt 10),
            Get (PStr ''my-project'') (PStr ''us-central1-f'') (PStr ''dev-cluster'')
              failed_cluster])
   \<and> main_gke script_api sim_str (cluster_params ''absent'' True)
       [Inr [], with_status ''STOPPING'', Inl (HttpError 404)] =
     Some (Exit0 [(''changed'', PBool True), (''name'', PStr ''dev-cluster''),
                  (''zone'', PStr ''us-central1-f''), (''status'', PStr ''FOT FOUND'')], [],
           [Delete (PStr ''my-project'') (PStr ''us-central1-f'') (PStr ''dev-cluster'') (Inr []),
            Sleep (PInt 10),
            Get (PStr ''my-project'') (PStr ''us-central1-f'') (PStr ''dev-cluster'')
              (with_status ''STOPPING''),
            Sleep (PInt 10),
            Get (PStr ''my-project'') (PStr ''us-central1-f'') (PStr ''dev-cluster'')
              (Inl (HttpError 404))])
   \<and> main_gke script_api sim_str (cluster_params ''absent'' True)
       [Inr [], Inl (HttpError 503), Inl (HttpError 404)] =
     Some (Uncaught (HttpError 503), [Inl (HttpError 404)],
           [Delete (PStr ''my-project'') (PStr ''us-central1-f'') (PStr ''dev-cluster'') (Inr []),
            Sleep (PInt 10),
            Get (PStr ''my-project'') (PStr ''us-central1-f'') (PStr ''dev-cluster'')
              (Inl (HttpError 503))])"
proof -
  let ?P = "cluster_params ''present'' True" and ?A = "cluster_params ''absent'' True"
  let ?c = "Create (PStr ''my-project'') (PStr ''us-central1-f'')
              (make_cluster_body (cluster_params ''present'' True)) (Inr [])"
  let ?g = "Get (PStr ''my-project'') (PStr ''us-central1-f'') (PStr ''dev-cluster'')
              (with_status ''PROVISIONING'')"
  let ?d = "Delete (PStr ''my-project'') (PStr ''us-central1-f'') (PStr ''dev-cluster'') (Inr [])"
  note ev = cluster_params_def param_def script_api_def with_status_def failed_cluster_def
    fetch_def
  have "main_gke script_api sim_str ?P
          [Inr [], with_status ''PROVISIONING'', failed_cluster, with_status ''RUNNING''] =
        present_tail script_api sim_str ?P True True
          [(''name'', PStr ''dev-cluster''), (''status'', PStr ''PROVISIONING'')]
          [failed_cluster, with_status ''RUNNING''] [?c, ?g]"
    using polling_failures [where api = script_api and P = ?P and str_of = sim_str
        and ?s0.0 = "[Inr [], with_status ''PROVISIONING'', failed_cluster, with_status ''RUNNING'']"
        and ?s1.0 = "[with_status ''PROVISIONING'', failed_cluster, with_status ''RUNNING'']"
        and s = "[failed_cluster, with_status ''RUNNING'']" and created = "[]"
        and resp = "[(''name'', PStr ''dev-cluster''), (''status'', PStr ''PROVISIONING'')]"]
    by (simp add: ev)
  moreover have "present_tail script_api sim_str ?P True True
          [(''name'', PStr ''dev-cluster''), (''status'', PStr ''PROVISIONING'')]
          [failed_cluster, with_status ''RUNNING''] [?c, ?g] =
        Some (Fail [(''msg'', PStr (''Error [ERROR]: '' @ quoted ''quota exceeded''))],
           [with_status ''RUNNING''],
           [?c, ?g, Sleep (PInt 10),
            Get (PStr ''my-project'') (PStr ''us-central1-f'') (PStr ''dev-cluster'')
              failed_cluster])"
    using polling_failures [where api = script_api and P = ?P and str_of = sim_str
        and s = "[failed_cluster, with_status ''RUNNING'']" and s' = "[with_status ''RUNNING'']"
        and resp' = "[(''name'', PStr ''dev-cluster''), (''status'', PStr ''ERROR''),
                         (''statusMessage'', PStr ''quota exceeded'')]"
        and st = "PStr ''ERROR''" and m = "PStr ''quota exceeded''" and changed = True
        and resp = "[(''name'', PStr ''dev-cluster''), (''status'', PStr ''PROVISIONING'')]"
        and tr = "[?c, ?g]"]
    by (simp add: ev sim_str_def)
  moreover have "main_gke script_api sim_str ?A
       [Inr [], with_status ''STOPPING'', Inl (HttpError 404)] =
     Some (Exit0 [(''changed'', PBool True), (''name'', PStr ''dev-cluster''),
                  (''zone'', PStr ''us-central1-f''), (''status'', PStr ''FOT FOUND'')], [],
           [?d, Sleep (PInt 10),
            Get (PStr ''my-project'') (PStr ''us-central1-f'') (PStr ''dev-cluster'')
              (with_status ''STOPPING''),
            Sleep (PInt 10),
            Get (PStr ''my-project'') (PStr ''us-central1-f'') (PStr ''dev-cluster'')
              (Inl (HttpError 404))])"
    by (simp add: main_gke_def state_absent_def poll_absent.simps exit_json_def Let_def ev)
  moreover have "main_gke script_api sim_str ?A
       [Inr [], Inl (HttpError 503), Inl (HttpError 404)] =
     Some (Uncaught (HttpError 503), [Inl (HttpError 404)],
           [?d, Sleep (PInt 10),
            Get (PStr ''my-project'') (PStr ''us-central1-f'') (PStr ''dev-cluster'')
              (Inl (HttpError 503))])"
    by (simp add: main_gke_def state_absent_def poll_absent.simps exit_json_def Let_def ev)
  ultimately show ?thesis by simp
qed

subsection \<open>The delete branch of the DNS module\<close>

lemma map_of_finish_changed:
  "map_of (finish c out) ''changed'' =
     (case map_of out ''changed'' of None \<Rightarrow> Some (PBool False) | Some v \<Rightarrow> Some v)"
  by (simp add: finish_def Let_def update_conv' split: option.splits)

lemma map_of_finish_command: "map_of (finish c out) ''command'' = Some (PStr c)"
  by (simp add: finish_def Let_def update_conv')

lemma delete_handler_not_found:
  assumes "e = RecordDoesNotExistError \<or> e = ZoneDoesNotExistError \<or> e = GoogleError 404"
  shows "\<exists>out'. delete_handler uem P rt e w = (Returned (), w\<lparr>output_var := out'\<rparr>)
           \<and> map_of out' ''changed'' = map_of (output_var w) ''changed''"
proof -
  have "w = w\<lparr>output_var := output_var w\<rparr>" by simp
  with assms show ?thesis
    by (auto simp: delete_handler_def stmt_defs update_conv' intro: exI [of _ "output_var w"])
qed

lemma delete_handler_other:
  assumes "e \<noteq> RecordDoesNotExistError" "e \<noteq> ZoneDoesNotExistError" "e \<noteq> GoogleError 404"
  shows "(\<exists>kw. delete_handler uem P rt e w = (Failed kw, w))
         \<or> delete_handler uem P rt e w = (Raised AttributeError, w)"
  using assms
  by (cases e) (auto simp: delete_handler_def stmt_defs)

lemma delete_record_run:
  assumes cmd: "p_command P = ''delete''"
    and name: "p_name P = Some n" "n \<noteq> []"
    and rec: "p_record P = Some r" "r \<noteq> []" "last r = CHR ''.''"
    and dns: "\<not> no_trailing_dot (p_dns_name P)"
    and fetch: "get_record conn n (default_record_type (p_record_type P) @ '':'' @ r) s = (Inr obj, s1)"
    and flat: "to_dict obj = Inr d"
    and del: "delete_record conn obj s1 = (reply, s2)"
  shows "main_dns conn uem P s =
     (let w = \<lparr>remote = s2,
               calls = [(GetRecord n (default_record_type (p_record_type P) @ '':'' @ r), Inr obj),
                        (DeleteRecord obj, reply)],
               output_var = d\<rparr>
      in case reply of
           Inr v \<Rightarrow>
             if truthy v
             then (Exit0 (finish ''delete'' (AList.update ''changed'' (PBool True) d)),
                   w\<lparr>output_var := AList.update ''changed'' (PBool True) d\<rparr>)
             else (Fail [(''msg'', PStr (''Failed to delete record '' @ r)),
                         (''changed'', PBool False)], w)
         | Inl e \<Rightarrow>
             ending ''delete''
               (delete_handler uem P (PStr (default_record_type (p_record_type P))) e) w)"
proof -
  have nd: "\<not> no_trailing_dot (p_record P)"
    using rec by (simp add: no_trailing_dot_def)
  show ?thesis
    using cmd name rec fetch flat del
    by (simp add: main_dns_dispatch [OF nd dns] dispatch_def cmd_delete_def Let_def ending_def
        truthy_str_def stmt_defs split: sum.splits res.splits prod.splits)
qed

lemma delete_record_fetch_raises:
  assumes cmd: "p_command P = ''delete''"
    and name: "p_name P = Some n" "n \<noteq> []"
    and rec: "p_record P = Some r" "r \<noteq> []" "last r = CHR ''.''"
    and dns: "\<not> no_trailing_dot (p_dns_name P)"
    and fetch: "get_record conn n (default_record_type (p_record_type P) @ '':'' @ r) s = (Inl e, s1)"
  shows "main_dns conn uem P s =
     ending ''delete'' (delete_handler uem P (PStr (default_record_type (p_record_type P))) e)
       \<lparr>remote = s1,
        calls = [(GetRecord n (default_record_type (p_record_type P) @ '':'' @ r), Inl e)],
        output_var = []\<rparr>"
proof -
  have nd: "\<not> no_trailing_dot (p_record P)"
    using rec by (simp add: no_trailing_dot_def)
  show ?thesis
    using cmd name rec fetch
    by (simp add: main_dns_dispatch [OF nd dns] dispatch_def cmd_delete_def Let_def ending_def
        truthy_str_def stmt_defs split: sum.splits res.splits prod.splits)
qed

lemma delete_zone_run:
  assumes cmd: "p_command P = ''delete''"
    and name: "p_name P = Some n" "n \<noteq> []"
    and rec: "p_record P = None \<or> p_record P = Some []"
    and dns: "\<not> no_trailing_dot (p_dns_name P)"
    and fetch: "get_zone conn n s = (Inr obj, s1)"
    and flat: "to_dict obj = Inr d"
    and del: "delete_zone conn obj s1 = (reply, s2)"
  shows "main_dns conn uem P s =
     (let w = \<lparr>remote = s2, calls = [(GetZone n, Inr obj), (DeleteZone obj, reply)],
               output_var = d\<rparr>
      in case reply of
           Inr v \<Rightarrow>
             if truthy v
             then (Exit0 (finish ''delete'' (AList.update ''changed'' (PBool True) d)),
                   w\<lparr>output_var := AList.update ''changed'' (PBool True) d\<rparr>)
             else (Fail [(''msg'', PStr (''Failed to delete zone '' @ n)),
                         (''changed'', PBool False)], w)
         | Inl e \<Rightarrow>
             ending ''delete'' (delete_handler uem P (of_opt (p_record_type P)) e) w)"
proof -
  have nd: "\<not> no_trailing_dot (p_record P)"
    using rec by (auto simp: no_trailing_dot_def)
  show ?thesis
    using cmd name rec fetch flat del
    by (auto simp: main_dns_dispatch [OF nd dns] dispatch_def cmd_delete_def Let_def ending_def
        truthy_str_def stmt_defs split: sum.splits res.splits prod.splits)
qed

lemma delete_zone_fetch_raises:
  assumes cmd: "p_command P = ''delete''"
    and name: "p_name P = Some n" "n \<noteq> []"
    and rec: "p_record P = None \<or> p_record P = Some []"
    and dns: "\<not> no_trailing_dot (p_dns_name P)"
    and fetch: "get_zone conn n s = (Inl e, s1)"
  shows "main_dns conn uem P s =
     ending ''delete'' (delete_handler uem P (of_opt (p_record_type P)) e)
       \<lparr>remote = s1, calls = [(GetZone n, Inl e)], output_var = []\<rparr>"
proof -
  have nd: "\<not> no_trailing_dot (p_record P)"
    using rec by (auto simp: no_trailing_dot_def)
  show ?thesis
    using cmd name rec fetch
    by (auto simp: main_dns_dispatch [OF nd dns] dispatch_def cmd_delete_def Let_def ending_def
        truthy_str_def stmt_defs split: sum.splits res.splits prod.splits)
qed

lemma ending_delete_not_found:
  assumes "e = RecordDoesNotExistError \<or> e = ZoneDoesNotExistError \<or> e = GoogleError 404"
    and "map_of (output_var w) ''changed'' = None"
  shows "\<exists>out w'. ending c (delete_handler uem P rt e) w = (Exit0 out, w')
           \<and> map_of out ''changed'' = Some (PBool False)
           \<and> map_of out ''command'' = Some (PStr c)
           \<and> remote w' = remote w \<and> calls w' = calls w"
proof -
  from delete_handler_not_found [OF assms(1), of uem P rt w] obtain out' where
    "delete_handler uem P rt e w = (Returned (), w\<lparr>output_var := out'\<rparr>)"
    "map_of out' ''changed'' = map_of (output_var w) ''changed''"
    by blast
  with assms(2) show ?thesis
    by (simp add: ending_def map_of_finish_changed map_of_finish_command)
qed


lemma ending_delete_other:
  assumes "e \<noteq> RecordDoesNotExistError" "e \<noteq> ZoneDoesNotExistError" "e \<noteq> GoogleError 404"
  shows "(\<exists>kw. ending c (delete_handler uem P rt e) w = (Fail kw, w))
         \<or> ending c (delete_handler uem P rt e) w = (Uncaught AttributeError, w)"
  using delete_handler_other [OF assms, of uem P rt w]
  by (auto simp: ending_def)

lemma ending_delete_never_changed:
  assumes "map_of (output_var w) ''changed'' = None"
    and "fst (ending c (delete_handler uem P rt e) w) = Exit0 out"
  shows "map_of out ''changed'' = Some (PBool False)"
proof (cases "e = RecordDoesNotExistError \<or> e = ZoneDoesNotExistError \<or> e = GoogleError 404")
  case True
  from ending_delete_not_found [OF True assms(1), of c uem P rt] assms(2)
  show ?thesis by auto
next
  case False
  with ending_delete_other [of e c uem P rt w] assms(2)
  show ?thesis by auto
qed

lemma delete_record_signal:
  assumes cmd: "p_command P = ''delete''"
    and name: "p_name P = Some n" "n \<noteq> []"
    and dns: "\<not> no_trailing_dot (p_dns_name P)"
    and rec: "p_record P = Some r" "r \<noteq> []" "last r = CHR ''.''"
    and fetch: "get_record conn n (default_record_type (p_record_type P) @ '':'' @ r) s = (Inr obj, s1)"
    and flat: "to_dict obj = Inr d" "map_of d ''changed'' = None"
    and del: "delete_record conn obj s1 = (reply, s2)"
  shows "(\<forall>v. reply = Inr v \<and> \<not> truthy v \<longrightarrow>
            fst (main_dns conn uem P s) =
              Fail [(''msg'', PStr (''Failed to delete record '' @ r)), (''changed'', PBool False)])
       \<and> ((\<exists>out. fst (main_dns conn uem P s) = Exit0 out
                 \<and> map_of out ''changed'' = Some (PBool True))
          \<longleftrightarrow> (\<exists>v. reply = Inr v \<and> truthy v))"
proof (cases reply)
  case (Inl e)
  let ?w = "\<lparr>remote = s2,
             calls = [(GetRecord n (default_record_type (p_record_type P) @ '':'' @ r), Inr obj),
                      (DeleteRecord obj, reply)],
             output_var = d\<rparr>"
  have run: "main_dns conn uem P s =
      ending ''delete'' (delete_handler uem P (PStr (default_record_type (p_record_type P))) e) ?w"
    by (simp add: delete_record_run [OF cmd name rec dns fetch flat(1) del] Inl)
  have "map_of out ''changed'' = Some (PBool False)"
    if "fst (main_dns conn uem P s) = Exit0 out" for out
    by (rule ending_delete_never_changed [where w = ?w and c = "''delete''" and e = e])
      (use that flat(2) run in simp_all)
  with Inl show ?thesis by auto
next
  case (Inr v)
  then show ?thesis
    using flat(2)
    by (cases "truthy v")
      (simp_all add: delete_record_run [OF cmd name rec dns fetch flat(1) del] Let_def
        map_of_finish_changed update_conv')
qed

lemma delete_zone_signal:
  assumes cmd: "p_command P = ''delete''"
    and name: "p_name P = Some n" "n \<noteq> []"
    and dns: "\<not> no_trailing_dot (p_dns_name P)"
    and rec: "p_record P = None \<or> p_record P = Some []"
    and fetch: "get_zone conn n s = (Inr obj, s1)"
    and flat: "to_dict obj = Inr d" "map_of d ''changed'' = None"
    and del: "delete_zone conn obj s1 = (reply, s2)"
  shows "(\<forall>v. reply = Inr v \<and> \<not> truthy v \<longrightarrow>
            fst (main_dns conn uem P s) =
              Fail [(''msg'', PStr (''Failed to delete zone '' @ n)), (''changed'', PBool False)])
       \<and> ((\<exists>out. fst (main_dns conn uem P s) = Exit0 out
                 \<and> map_of out ''changed'' = Some (PBool True))
          \<longleftrightarrow> (\<exists>v. reply = Inr v \<and> truthy v))"
proof (cases reply)
  case (Inl e)
  let ?w = "\<lparr>remote = s2, calls = [(GetZone n, Inr obj), (DeleteZone obj, reply)],
             output_var = d\<rparr>"
  have run: "main_dns conn uem P s =
      ending ''delete'' (delete_handler uem P (of_opt (p_record_type P)) e) ?w"
    by (simp add: delete_zone_run [OF cmd name rec dns fetch flat(1) del] Inl)
  have "map_of out ''changed'' = Some (PBool False)"
    if "fst (main_dns conn uem P s) = Exit0 out" for out
    by (rule ending_delete_never_changed [where w = ?w and c = "''delete''" and e = e])
      (use that flat(2) run in simp_all)
  with Inl show ?thesis by auto
next
  case (Inr v)
  then show ?thesis
    using flat(2)
    by (cases "truthy v")
      (simp_all add: delete_zone_run [OF cmd name rec dns fetch flat(1) del] Let_def
        map_of_finish_changed update_conv')
qed


text \<open>
  C9. In a \<^verbatim>\<open>delete\<close> whose target the driver returned (an object that flattens to a
  mapping without a key \<^verbatim>\<open>changed\<close>), for the record path and for the zone path: when
  the driver's delete call returns a false value the module ends in \<^verbatim>\<open>fail_json\<close> with
  the message \<^verbatim>\<open>Failed to delete ...\<close> and \<^verbatim>\<open>changed=False\<close>; and the module exits with
  \<^verbatim>\<open>changed=True\<close> exactly when the delete call returned a true value (not when it
  returned a false one, and not when it raised).
\<close>

theorem delete_failure_signal:
  assumes cmd: "p_command P = ''delete''"
    and name: "p_name P = Some n" "n \<noteq> []"
    and dns: "\<not> no_trailing_dot (p_dns_name P)"
    and flat: "to_dict obj = Inr d" "map_of d ''changed'' = None"
  shows "(p_record P = Some r \<and> r \<noteq> [] \<and> last r = CHR ''.''
          \<and> get_record conn n (default_record_type (p_record_type P) @ '':'' @ r) s
              = (Inr obj, s1)
          \<and> delete_record conn obj s1 = (reply, s2)
        \<longrightarrow> (\<forall>v. reply = Inr v \<and> \<not> truthy v \<longrightarrow>
               fst (main_dns conn uem P s) =
                 Fail [(''msg'', PStr (''Failed to delete record '' @ r)),
                       (''changed'', PBool False)])
            \<and> ((\<exists>out. fst (main_dns conn uem P s) = Exit0 out
                      \<and> map_of out ''changed'' = Some (PBool True))
               \<longleftrightarrow> (\<exists>v. reply = Inr v \<and> truthy v)))
       \<and> ((p_record P = None \<or> p_record P = Some [])
          \<and> get_zone conn n s = (Inr obj, s1)
          \<and> delete_zone conn obj s1 = (reply, s2)
        \<longrightarrow> (\<forall>v. reply = Inr v \<and> \<not> truthy v \<longrightarrow>
               fst (main_dns conn uem P s) =
                 Fail [(''msg'', PStr (''Failed to delete zone '' @ n)),
                       (''changed'', PBool False)])
            \<and> ((\<exists>out. fst (main_dns conn uem P s) = Exit0 out
                      \<and> map_of out ''changed'' = Some (PBool True))
               \<longleftrightarrow> (\<exists>v. reply = Inr v \<and> truthy v)))"
proof (rule conjI)
  show "p_record P = Some r \<and> r \<noteq> [] \<and> last r = CHR ''.''
          \<and> get_record conn n (default_record_type (p_record_type P) @ '':'' @ r) s
              = (Inr obj, s1)
          \<and> delete_record conn obj s1 = (reply, s2)
        \<longrightarrow> (\<forall>v. reply = Inr v \<and> \<not> truthy v \<longrightarrow>
               fst (main_dns conn uem P s) =
                 Fail [(''msg'', PStr (''Failed to delete record '' @ r)),
                       (''changed'', PBool False)])
            \<and> ((\<exists>out. fst (main_dns conn uem P s) = Exit0 out
                      \<and> map_of out ''changed'' = Some (PBool True))
               \<longleftrightarrow> (\<exists>v. reply = Inr v \<and> truthy v))"
  proof
    assume "p_record P = Some r \<and> r \<noteq> [] \<and> last r = CHR ''.''
          \<and> get_record conn n (default_record_type (p_record_type P) @ '':'' @ r) s
              = (Inr obj, s1)
          \<and> delete_record conn obj s1 = (reply, s2)"
    then have rec: "p_record P = Some r" "r \<noteq> []" "last r = CHR ''.''"
      and fetch: "get_record conn n (default_record_type (p_record_type P) @ '':'' @ r) s
                    = (Inr obj, s1)"
      and del: "delete_record conn obj s1 = (reply, s2)"
      by simp_all
    show "(\<forall>v. reply = Inr v \<and> \<not> truthy v \<longrightarrow>
               fst (main_dns conn uem P s) =
                 Fail [(''msg'', PStr (''Failed to delete record '' @ r)),
                       (''changed'', PBool False)])
            \<and> ((\<exists>out. fst (main_dns conn uem P s) = Exit0 out
                      \<and> map_of out ''changed'' = Some (PBool True))
               \<longleftrightarrow> (\<exists>v. reply = Inr v \<and> truthy v))"
      by (rule delete_record_signal [OF cmd name dns rec fetch flat del])
  qed
next
  show "(p_record P = None \<or> p_record P = Some [])
          \<and> get_zone conn n s = (Inr obj, s1)
          \<and> delete_zone conn obj s1 = (reply, s2)
        \<longrightarrow> (\<forall>v. reply = Inr v \<and> \<not> truthy v \<longrightarrow>
               fst (main_dns conn uem P s) =
                 Fail [(''msg'', PStr (''Failed to delete zone '' @ n)),
                       (''changed'', PBool False)])
            \<and> ((\<exists>out. fst (main_dns conn uem P s) = Exit0 out
                      \<and> map_of out ''changed'' = Some (PBool True))
               \<longleftrightarrow> (\<exists>v. reply = Inr v \<and> truthy v))"
  proof
    assume "(p_record P = None \<or> p_record P = Some [])
          \<and> get_zone conn n s = (Inr obj, s1)
          \<and> delete_zone conn obj s1 = (reply, s2)"
    then have rec: "p_record P = None \<or> p_record P = Some []"
      and fetch: "get_zone conn n s = (Inr obj, s1)"
      and del: "delete_zone conn obj s1 = (reply, s2)"
      by simp_all
    show "(\<forall>v. reply = Inr v \<and> \<not> truthy v \<longrightarrow>
               fst (main_dns conn uem P s) =
                 Fail [(''msg'', PStr (''Failed to delete zone '' @ n)),
                       (''changed'', PBool False)])
            \<and> ((\<exists>out. fst (main_dns conn uem P s) = Exit0 out
                      \<and> map_of out ''changed'' = Some (PBool True))
               \<longleftrightarrow> (\<exists>v. reply = Inr v \<and> truthy v))"
      by (rule delete_zone_signal [OF cmd name dns rec fetch flat del])
  qed
qed



text \<open>The zone exists and \<^verbatim>\<open>delete_zone\<close> answers \<^verbatim>\<open>False\<close>.\<close>

theorem delete_failure_signal_witness:
  "fst (main_dns refusing_dns sim_uem delete_example_zone one_zone) =
     Fail [(''msg'', PStr ''Failed to delete zone my-example-zone''), (''changed'', PBool False)]
   \<and> \<not> (\<exists>out. fst (main_dns refusing_dns sim_uem delete_example_zone one_zone) = Exit0 out
              \<and> map_of out ''changed'' = Some (PBool True))"
proof -
  let ?d = "[(''id'', PStr ''my-example-zone''), (''domain'', PStr ''example.com.'')]"
  have 1: "p_command delete_example_zone = ''delete''"
    and 2: "p_name delete_example_zone = Some ''my-example-zone''"
    and 3: "''my-example-zone'' \<noteq> []"
    and 4: "\<not> no_trailing_dot (p_dns_name delete_example_zone)"
    by (simp_all add: delete_example_zone_def no_params_def no_trailing_dot_def)
  have 5: "to_dict example_zone = Inr ?d" and 6: "map_of ?d ''changed'' = None"
    by (simp_all add: example_zone_def zone_obj_def)
  have z: "(p_record delete_example_zone = None \<or> p_record delete_example_zone = Some [])
      \<and> get_zone refusing_dns ''my-example-zone'' one_zone = (Inr example_zone, one_zone)
      \<and> delete_zone refusing_dns example_zone one_zone = (Inr (PBool False), one_zone)"
    by (simp add: delete_example_zone_def no_params_def refusing_dns_def sim_dns_def
        one_zone_def)
  note c = delete_failure_signal [OF 1 2 3 4 5 6, where conn = refusing_dns and s = one_zone
      and ?s1.0 = one_zone and ?s2.0 = one_zone and reply = "Inr (PBool False)"
      and uem = sim_uem, THEN conjunct2, THEN mp, OF z]
  from c [THEN conjunct1] have "fst (main_dns refusing_dns sim_uem delete_example_zone one_zone) =
     Fail [(''msg'', PStr ''Failed to delete zone my-example-zone''), (''changed'', PBool False)]"
    by simp
  moreover from c [THEN conjunct2]
  have "\<not> (\<exists>out. fst (main_dns refusing_dns sim_uem delete_example_zone one_zone) = Exit0 out
              \<and> map_of out ''changed'' = Some (PBool True))"
    by simp
  ultimately show ?thesis by (rule conjI)
qed

subsection \<open>Deleting what is not there\<close>

lemma ending_delete_absent:
  assumes "dns_not_found e" "map_of (output_var w) ''changed'' = None"
  shows "\<exists>out w'. ending c (delete_handler uem P rt e) w = (Exit0 out, w')
           \<and> map_of out ''changed'' = Some (PBool False)"
  using ending_delete_not_found [of e w c uem P rt] assms
  by (auto simp: dns_not_found_def)

lemma delete_absent_record:
  "p_command P = ''delete'' \<and> p_name P = Some n \<and> n \<noteq> []
      \<and> \<not> no_trailing_dot (p_dns_name P)
      \<and> p_record P = Some r \<and> r \<noteq> [] \<and> last r = CHR ''.'' \<and> dns_not_found e
      \<and> (get_record conn n (default_record_type (p_record_type P) @ '':'' @ r) s = (Inl e, s1)
         \<or> get_record conn n (default_record_type (p_record_type P) @ '':'' @ r) s = (Inr obj, s1)
           \<and> to_dict obj = Inr d \<and> map_of d ''changed'' = None
           \<and> delete_record conn obj s1 = (Inl e, s2))
    \<longrightarrow> (\<exists>out w. main_dns conn uem P s = (Exit0 out, w)
            \<and> map_of out ''changed'' = Some (PBool False))"
proof
  assume h: "p_command P = ''delete'' \<and> p_name P = Some n \<and> n \<noteq> []
      \<and> \<not> no_trailing_dot (p_dns_name P)
      \<and> p_record P = Some r \<and> r \<noteq> [] \<and> last r = CHR ''.'' \<and> dns_not_found e
      \<and> (get_record conn n (default_record_type (p_record_type P) @ '':'' @ r) s = (Inl e, s1)
         \<or> get_record conn n (default_record_type (p_record_type P) @ '':'' @ r) s = (Inr obj, s1)
           \<and> to_dict obj = Inr d \<and> map_of d ''changed'' = None
           \<and> delete_record conn obj s1 = (Inl e, s2))"
  then have cmd: "p_command P = ''delete''" and name: "p_name P = Some n" "n \<noteq> []"
    and dns: "\<not> no_trailing_dot (p_dns_name P)"
    and rec: "p_record P = Some r" "r \<noteq> []" "last r = CHR ''.''"
    and nf: "dns_not_found e"
    by simp_all
  from h have "get_record conn n (default_record_type (p_record_type P) @ '':'' @ r) s = (Inl e, s1)
      \<or> get_record conn n (default_record_type (p_record_type P) @ '':'' @ r) s = (Inr obj, s1)
        \<and> to_dict obj = Inr d \<and> map_of d ''changed'' = None
        \<and> delete_record conn obj s1 = (Inl e, s2)"
    by simp
  then show "(\<exists>out w. main_dns conn uem P s = (Exit0 out, w)
            \<and> map_of out ''changed'' = Some (PBool False))"
  proof (elim disjE conjE)
    assume fetch: "get_record conn n (default_record_type (p_record_type P) @ '':'' @ r) s = (Inl e, s1)"
    show ?thesis
      by (simp only: delete_record_fetch_raises [OF cmd name rec dns fetch])
        (rule ending_delete_absent [OF nf], simp)
  next
    assume del: "get_record conn n (default_record_type (p_record_type P) @ '':'' @ r) s = (Inr obj, s1)"
        "to_dict obj = Inr d" "map_of d ''changed'' = None"
        "delete_record conn obj s1 = (Inl e, s2)"
    have run: "main_dns conn uem P s =
        ending ''delete''
          (delete_handler uem P (PStr (default_record_type (p_record_type P))) e)
          \<lparr>remote = s2,
           calls = [(GetRecord n (default_record_type (p_record_type P) @ '':'' @ r), Inr obj),
                    (DeleteRecord obj, Inl e)],
           output_var = d\<rparr>"
      by (simp add: delete_record_run [OF cmd name rec dns del(1,2,4)])
    show ?thesis
      unfolding run by (rule ending_delete_absent [OF nf]) (simp add: del(3))
  qed
qed

lemma delete_absent_zone:
  "p_command P = ''delete'' \<and> p_name P = Some n \<and> n \<noteq> []
      \<and> \<not> no_trailing_dot (p_dns_name P)
      \<and> (p_record P = None \<or> p_record P = Some []) \<and> dns_not_found e
      \<and> (get_zone conn n s = (Inl e, s1)
         \<or> get_zone conn n s = (Inr obj, s1)
           \<and> to_dict obj = Inr d \<and> map_of d ''changed'' = None
           \<and> delete_zone conn obj s1 = (Inl e, s2))
    \<longrightarrow> (\<exists>out w. main_dns conn uem P s = (Exit0 out, w)
            \<and> map_of out ''changed'' = Some (PBool False))"
proof
  assume h: "p_command P = ''delete'' \<and> p_name P = Some n \<and> n \<noteq> []
      \<and> \<not> no_trailing_dot (p_dns_name P)
      \<and> (p_record P = None \<or> p_record P = Some []) \<and> dns_not_found e
      \<and> (get_zone conn n s = (Inl e, s1)
         \<or> get_zone conn n s = (Inr obj, s1)
           \<and> to_dict obj = Inr d \<and> map_of d ''changed'' = None
           \<and> delete_zone conn obj s1 = (Inl e, s2))"
  then have cmd: "p_command P = ''delete''" and name: "p_name P = Some n" "n \<noteq> []"
    and dns: "\<not> no_trailing_dot (p_dns_name P)"
    and rec: "p_record P = None \<or> p_record P = Some []"
    and nf: "dns_not_found e"
    by simp_all
  from h have "get_zone conn n s = (Inl e, s1)
      \<or> get_zone conn n s = (Inr obj, s1)
        \<and> to_dict obj = Inr d \<and> map_of d ''changed'' = None
        \<and> delete_zone conn obj s1 = (Inl e, s2)"
    by simp
  then show "(\<exists>out w. main_dns conn uem P s = (Exit0 out, w)
            \<and> map_of out ''changed'' = Some (PBool False))"
  proof (elim disjE conjE)
    assume fetch: "get_zone conn n s = (Inl e, s1)"
    show ?thesis
      by (simp only: delete_zone_fetch_raises [OF cmd name rec dns fetch])
        (rule ending_delete_absent [OF nf], simp)
  next
    assume del: "get_zone conn n s = (Inr obj, s1)"
        "to_dict obj = Inr d" "map_of d ''changed'' = None"
        "delete_zone conn obj s1 = (Inl e, s2)"
    have run: "main_dns conn uem P s =
        ending ''delete'' (delete_handler uem P (of_opt (p_record_type P)) e)
          \<lparr>remote = s2, calls = [(GetZone n, Inr obj), (DeleteZone obj, Inl e)],
           output_var = d\<rparr>"
      by (simp add: delete_zone_run [OF cmd name rec dns del(1,2,4)])
    show ?thesis
      unfolding run by (rule ending_delete_absent [OF nf]) (simp add: del(3))
  qed
qed

lemma delete_absent_cluster:
  "param G ''state'' = PStr ''absent''
      \<and> cluster_delete api (param G ''project_id'') (param G ''zone'') (param G ''name'') t
          = (Inl (HttpError 404), t1)
    \<longrightarrow> main_gke api str_of G t =
          Some (Exit0 [(''changed'', PBool False), (''name'', param G ''name''),
                       (''zone'', param G ''zone''), (''status'', PStr ''FOT FOUND'')],
                t1, [Delete (param G ''project_id'') (param G ''zone'') (param G ''name'')
                       (Inl (HttpError 404))])"
  by (simp add: main_gke_already_absent)

lemma delete_twice_zone:
  "p_command P = ''delete'' \<and> p_name P = Some n \<and> n \<noteq> []
      \<and> \<not> no_trailing_dot (p_dns_name P)
      \<and> (p_record P = None \<or> p_record P = Some [])
      \<and> main_dns conn uem P s = (Exit0 out1, w1)
      \<and> map_of out1 ''changed'' = Some (PBool True)
      \<and> dns_not_found e \<and> get_zone conn n (remote w1) = (Inl e, s2)
    \<longrightarrow> (\<exists>out2 w2. main_dns conn uem P (remote w1) = (Exit0 out2, w2)
            \<and> map_of out2 ''changed'' = Some (PBool False))"
  using delete_absent_zone [of P n e conn "remote w1" s2 obj d s2 uem]
  by simp

lemma delete_twice_cluster:
  "param G ''state'' = PStr ''absent''
      \<and> main_gke api str_of G t = Some (Exit0 out1, t1, tr1)
      \<and> map_of out1 ''changed'' = Some (PBool True)
      \<and> cluster_delete api (param G ''project_id'') (param G ''zone'') (param G ''name'') t1
          = (Inl (HttpError 404), t2)
    \<longrightarrow> (\<exists>out2 tr2. main_gke api str_of G t1 = Some (Exit0 out2, t2, tr2)
            \<and> map_of out2 ''changed'' = Some (PBool False))"
  by (simp add: main_gke_already_absent)

text \<open>
  C2. A \<^verbatim>\<open>delete\<close> whose fetch, or whose delete call after a successful fetch, raises
  one of the not-found exceptions (for a record and for a zone), and a cluster delete
  whose request raises \<^verbatim>\<open>HttpError\<close> 404, exit 0 with \<^verbatim>\<open>changed=False\<close>: they do not
  fail. Hence the second of two deletes: when the first exited with \<^verbatim>\<open>changed=True\<close>
  and the provider then answers not-found, the second exits 0 with \<^verbatim>\<open>changed=False\<close>
  (fourth and fifth conjunct). A fetched object is taken to have no attribute named
  \<^verbatim>\<open>changed\<close>.
\<close>

theorem delete_of_absent_resource:
  "(p_command P = ''delete'' \<and> p_name P = Some n \<and> n \<noteq> []
      \<and> \<not> no_trailing_dot (p_dns_name P)
      \<and> p_record P = Some r \<and> r \<noteq> [] \<and> last r = CHR ''.'' \<and> dns_not_found e
      \<and> (get_record conn n (default_record_type (p_record_type P) @ '':'' @ r) s = (Inl e, s1)
         \<or> get_record conn n (default_record_type (p_record_type P) @ '':'' @ r) s = (Inr obj, s1)
           \<and> to_dict obj = Inr d \<and> map_of d ''changed'' = None
           \<and> delete_record conn obj s1 = (Inl e, s2))
    \<longrightarrow> (\<exists>out w. main_dns conn uem P s = (Exit0 out, w)
            \<and> map_of out ''changed'' = Some (PBool False)))
   \<and> (p_command P = ''delete'' \<and> p_name P = Some n \<and> n \<noteq> []
      \<and> \<not> no_trailing_dot (p_dns_name P)
      \<and> (p_record P = None \<or> p_record P = Some []) \<and> dns_not_found e
      \<and> (get_zone conn n s = (Inl e, s1)
         \<or> get_zone conn n s = (Inr obj, s1)
           \<and> to_dict obj = Inr d \<and> map_of d ''changed'' = None
           \<and> delete_zone conn obj s1 = (Inl e, s2))
    \<longrightarrow> (\<exists>out w. main_dns conn uem P s = (Exit0 out, w)
            \<and> map_of out ''changed'' = Some (PBool False)))
   \<and> (param G ''state'' = PStr ''absent''
      \<and> cluster_delete api (param G ''project_id'') (param G ''zone'') (param G ''name'') t
          = (Inl (HttpError 404), t1)
    \<longrightarrow> main_gke api str_of G t =
          Some (Exit0 [(''changed'', PBool False), (''name'', param G ''name''),
                       (''zone'', param G ''zone''), (''status'', PStr ''FOT FOUND'')],
                t1, [Delete (param G ''project_id'') (param G ''zone'') (param G ''name'')
                       (Inl (HttpError 404))]))
   \<and> (p_command P = ''delete'' \<and> p_name P = Some n \<and> n \<noteq> []
      \<and> \<not> no_trailing_dot (p_dns_name P)
      \<and> (p_record P = None \<or> p_record P = Some [])
      \<and> main_dns conn uem P s = (Exit0 out1, w1)
      \<and> map_of out1 ''changed'' = Some (PBool True)
      \<and> dns_not_found e \<and> get_zone conn n (remote w1) = (Inl e, s2)
    \<longrightarrow> (\<exists>out2 w2. main_dns conn uem P (remote w1) = (Exit0 out2, w2)
            \<and> map_of out2 ''changed'' = Some (PBool False)))
   \<and> (param G ''state'' = PStr ''absent''
      \<and> main_gke api str_of G t = Some (Exit0 out1, t1, tr1)
      \<and> map_of out1 ''changed'' = Some (PBool True)
      \<and> cluster_delete api (param G ''project_id'') (param G ''zone'') (param G ''name'') t1
          = (Inl (HttpError 404), t2)
    \<longrightarrow> (\<exists>out2 tr2. main_gke api str_of G t1 = Some (Exit0 out2, t2, tr2)
            \<and> map_of out2 ''changed'' = Some (PBool False)))"
  by (intro conjI delete_absent_record delete_absent_zone delete_absent_cluster
      delete_twice_zone delete_twice_cluster)

text \<open>The zone of the simulated provider deleted twice, and a cluster deleted twice
  without waiting: \<^verbatim>\<open>changed\<close> is true, then false.\<close>

theorem delete_of_absent_resource_witness:
  "fst (main_dns sim_dns sim_uem delete_example_zone one_zone) =
     Exit0 [(''id'', PStr ''my-example-zone''), (''domain'', PStr ''example.com.''),
            (''changed'', PBool True), (''command'', PStr ''delete'')]
   \<and> remote (snd (main_dns sim_dns sim_uem delete_example_zone one_zone)) = empty_provider
   \<and> (\<exists>out w. main_dns sim_dns sim_uem delete_example_zone empty_provider = (Exit0 out, w)
         \<and> map_of out ''changed'' = Some (PBool False))
   \<and> main_gke script_api sim_str (cluster_params ''absent'' False)
         [Inr [], Inl (HttpError 404)] =
       Some (Exit0 [(''changed'', PBool True), (''name'', PStr ''dev-cluster''),
                    (''zone'', PStr ''us-central1-f''), (''status'', PStr ''FOT FOUND'')],
             [Inl (HttpError 404)],
             [Delete (PStr ''my-project'') (PStr ''us-central1-f'') (PStr ''dev-cluster'')
                (Inr [])])
   \<and> main_gke script_api sim_str (cluster_params ''absent'' False) [Inl (HttpError 404)] =
       Some (Exit0 [(''changed'', PBool False), (''name'', PStr ''dev-cluster''),
                    (''zone'', PStr ''us-central1-f''), (''status'', PStr ''FOT FOUND'')],
             [],
             [Delete (PStr ''my-project'') (PStr ''us-central1-f'') (PStr ''dev-cluster'')
                (Inl (HttpError 404))])"
proof -
  note t = delete_of_absent_resource [where P = delete_example_zone
      and n = "''my-example-zone''" and e = ZoneDoesNotExistError and conn = sim_dns
      and s = empty_provider and ?s1.0 = empty_provider and uem = sim_uem
      and G = "cluster_params ''absent'' False" and api = script_api and str_of = sim_str
      and t = "[Inl (HttpError 404)]" and ?t1.0 = "[]"]
  have first: "main_dns sim_dns sim_uem delete_example_zone one_zone =
      (Exit0 [(''id'', PStr ''my-example-zone''), (''domain'', PStr ''example.com.''),
              (''changed'', PBool True), (''command'', PStr ''delete'')],
       \<lparr>remote = empty_provider,
        calls = [(GetZone ''my-example-zone'', Inr example_zone),
                 (DeleteZone example_zone, Inr (PBool True))],
        output_var = [(''id'', PStr ''my-example-zone''), (''domain'', PStr ''example.com.''),
                      (''changed'', PBool True)]\<rparr>)"
    by (simp add: main_dns_def ending_def dispatch_def cmd_delete_def stmt_defs Let_def
        finish_def truthy_str_def no_trailing_dot_def delete_example_zone_def no_params_def
        sim_dns_def one_zone_def empty_provider_def example_zone_def zone_obj_def obj_id_def)
  have second: "\<exists>out w. main_dns sim_dns sim_uem delete_example_zone empty_provider
        = (Exit0 out, w) \<and> map_of out ''changed'' = Some (PBool False)"
    by (rule t [THEN conjunct2, THEN conjunct1, THEN mp])
      (simp add: delete_example_zone_def no_params_def no_trailing_dot_def dns_not_found_def
        sim_dns_def empty_provider_def)
  have third: "main_gke script_api sim_str (cluster_params ''absent'' False)
         [Inr [], Inl (HttpError 404)] =
       Some (Exit0 [(''changed'', PBool True), (''name'', PStr ''dev-cluster''),
                    (''zone'', PStr ''us-central1-f''), (''status'', PStr ''FOT FOUND'')],
             [Inl (HttpError 404)],
             [Delete (PStr ''my-project'') (PStr ''us-central1-f'') (PStr ''dev-cluster'')
                (Inr [])])"
    by (simp add: main_gke_def state_absent_def poll_absent_stop exit_json_def Let_def
        cluster_params_def param_def script_api_def)
  have fourth: "main_gke script_api sim_str (cluster_params ''absent'' False)
         [Inl (HttpError 404)] =
       Some (Exit0 [(''changed'', PBool False), (''name'', PStr ''dev-cluster''),
                    (''zone'', PStr ''us-central1-f''), (''status'', PStr ''FOT FOUND'')],
             [],
             [Delete (PStr ''my-project'') (PStr ''us-central1-f'') (PStr ''dev-cluster'')
                (Inl (HttpError 404))])"
    using t [THEN conjunct2, THEN conjunct2, THEN conjunct1]
    by (simp add: cluster_params_def param_def script_api_def)
  from first second third fourth show ?thesis by simp
qed

subsection \<open>Creating what is there already\<close>

lemma create_record_conflict:
  "p_command P = ''create'' \<and> p_name P = Some n \<and> n \<noteq> []
      \<and> \<not> no_trailing_dot (p_dns_name P)
      \<and> p_record P = Some r \<and> r \<noteq> [] \<and> last r = CHR ''.'' 
      \<and> get_zone conn n s = (Inr zone, s1)
      \<and> create_record conn r zone (default_record_type (p_record_type P))
             (PDict [(''ttl'', default_ttl (p_ttl P)),
                     (''rrdatas'', PList (map PStr (rrdatas (p_value P))))]) s1 = (Inl (GoogleError 409), s2)
      \<and> get_record conn n (default_record_type (p_record_type P) @ '':'' @ r) s2 = (Inr obj, s3)
      \<and> to_dict obj = Inr d \<and> map_of d ''changed'' = None
    \<longrightarrow> main_dns conn uem P s =
          (Exit0 (finish ''create'' d),
           \<lparr>remote = s3,
            calls = [(GetZone n, Inr zone),
                     (CreateRecord r zone (default_record_type (p_record_type P))
                        (PDict [(''ttl'', default_ttl (p_ttl P)),
                     (''rrdatas'', PList (map PStr (rrdatas (p_value P))))]),
                      Inl (GoogleError 409)),
                     (GetRecord n (default_record_type (p_record_type P) @ '':'' @ r), Inr obj)],
            output_var = d\<rparr>)
        \<and> map_of (finish ''create'' d) ''changed'' = Some (PBool False)"
proof
  assume h: "p_command P = ''create'' \<and> p_name P = Some n \<and> n \<noteq> []
      \<and> \<not> no_trailing_dot (p_dns_name P)
      \<and> p_record P = Some r \<and> r \<noteq> [] \<and> last r = CHR ''.'' 
      \<and> get_zone conn n s = (Inr zone, s1)
      \<and> create_record conn r zone (default_record_type (p_record_type P))
             (PDict [(''ttl'', default_ttl (p_ttl P)),
                     (''rrdatas'', PList (map PStr (rrdatas (p_value P))))]) s1 = (Inl (GoogleError 409), s2)
      \<and> get_record conn n (default_record_type (p_record_type P) @ '':'' @ r) s2 = (Inr obj, s3)
      \<and> to_dict obj = Inr d \<and> map_of d ''changed'' = None"
  then have cmd: "p_command P = ''create''" and name: "p_name P = Some n" "n \<noteq> []"
    and dns: "\<not> no_trailing_dot (p_dns_name P)"
    and rec: "p_record P = Some r" "r \<noteq> []" "last r = CHR ''.''"
    by simp_all
  have nd: "\<not> no_trailing_dot (p_record P)"
    using rec by (simp add: no_trailing_dot_def)
  from h cmd name rec show "main_dns conn uem P s =
          (Exit0 (finish ''create'' d),
           \<lparr>remote = s3,
            calls = [(GetZone n, Inr zone),
                     (CreateRecord r zone (default_record_type (p_record_type P))
                        (PDict [(''ttl'', default_ttl (p_ttl P)),
                     (''rrdatas'', PList (map PStr (rrdatas (p_value P))))]),
                      Inl (GoogleError 409)),
                     (GetRecord n (default_record_type (p_record_type P) @ '':'' @ r), Inr obj)],
            output_var = d\<rparr>)
        \<and> map_of (finish ''create'' d) ''changed'' = Some (PBool False)"
    by (simp add: main_dns_dispatch [OF nd dns] dispatch_def cmd_create_def Let_def
        ending_def truthy_str_def stmt_defs map_of_finish_changed)
qed

lemma create_zone_conflict:
  "p_command P = ''create'' \<and> p_name P = Some n \<and> n \<noteq> []
      \<and> \<not> no_trailing_dot (p_dns_name P)
      \<and> (p_record P = None \<or> p_record P = Some [])
      \<and> create_zone conn (of_opt (p_dns_name P))
             (PDict [(''name'', PStr n),
                     (''description'',
                      PStr (if \<not> truthy_str (p_description P)
                            then ''Managed zone: '' @ pstr (p_dns_name P)
                            else pstr (p_description P)))]) s = (Inl (GoogleError 409), s1)
      \<and> get_zone conn n s1 = (Inr zone, s2) \<and> get_zone conn n s2 = (Inr obj, s3)
      \<and> to_dict obj = Inr d \<and> map_of d ''changed'' = None
    \<longrightarrow> main_dns conn uem P s =
          (Exit0 (finish ''create'' d),
           \<lparr>remote = s3,
            calls = [(CreateZone (of_opt (p_dns_name P))
                        (PDict [(''name'', PStr n),
                     (''description'',
                      PStr (if \<not> truthy_str (p_description P)
                            then ''Managed zone: '' @ pstr (p_dns_name P)
                            else pstr (p_description P)))]),
                      Inl (GoogleError 409)),
                     (GetZone n, Inr zone), (GetZone n, Inr obj)],
            output_var = d\<rparr>)
        \<and> map_of (finish ''create'' d) ''changed'' = Some (PBool False)"
proof
  assume h: "p_command P = ''create'' \<and> p_name P = Some n \<and> n \<noteq> []
      \<and> \<not> no_trailing_dot (p_dns_name P)
      \<and> (p_record P = None \<or> p_record P = Some [])
      \<and> create_zone conn (of_opt (p_dns_name P))
             (PDict [(''name'', PStr n),
                     (''description'',
                      PStr (if \<not> truthy_str (p_description P)
                            then ''Managed zone: '' @ pstr (p_dns_name P)
                            else pstr (p_description P)))]) s = (Inl (GoogleError 409), s1)
      \<and> get_zone conn n s1 = (Inr zone, s2) \<and> get_zone conn n s2 = (Inr obj, s3)
      \<and> to_dict obj = Inr d \<and> map_of d ''changed'' = None"
  then have cmd: "p_command P = ''create''" and name: "p_name P = Some n" "n \<noteq> []"
    and dns: "\<not> no_trailing_dot (p_dns_name P)"
    and rec: "p_record P = None \<or> p_record P = Some []"
    by simp_all
  have nd: "\<not> no_trailing_dot (p_record P)"
    using rec by (auto simp: no_trailing_dot_def)
  from h cmd name rec show "main_dns conn uem P s =
          (Exit0 (finish ''create'' d),
           \<lparr>remote = s3,
            calls = [(CreateZone (of_opt (p_dns_name P))
                        (PDict [(''name'', PStr n),
                     (''description'',
                      PStr (if \<not> truthy_str (p_description P)
                            then ''Managed zone: '' @ pstr (p_dns_name P)
                            else pstr (p_description P)))]),
                      Inl (GoogleError 409)),
                     (GetZone n, Inr zone), (GetZone n, Inr obj)],
            output_var = d\<rparr>)
        \<and> map_of (finish ''create'' d) ''changed'' = Some (PBool False)"
    by (auto simp: main_dns_dispatch [OF nd dns] dispatch_def cmd_create_def Let_def
        ending_def truthy_str_def stmt_defs map_of_finish_changed)
qed

lemma create_cluster_conflict:
  "param G ''state'' = PStr ''present''
      \<and> cluster_create api (param G ''project_id'') (param G ''zone'') (make_cluster_body G) t
          = (Inl (HttpError 409), t1)
      \<and> fetch api G t1 = (Inr resp, t2) \<and> map_of resp ''changed'' = None
    \<longrightarrow> main_gke api str_of G t =
          Some (Exit0 ((''changed'', PBool False) # resp), t2,
                [Create (param G ''project_id'') (param G ''zone'') (make_cluster_body G)
                   (Inl (HttpError 409)),
                 Get (param G ''project_id'') (param G ''zone'') (param G ''name'')
                   (Inr resp)])"
  by (simp add: main_gke_def state_present_def present_handler_def present_tail_def
      poll_present_stop exit_json_def Let_def fetch_def)

lemma create_record_fatal:
  "p_command P = ''create'' \<and> p_name P = Some n \<and> n \<noteq> []
      \<and> \<not> no_trailing_dot (p_dns_name P)
      \<and> p_record P = Some r \<and> r \<noteq> [] \<and> last r = CHR ''.'' 
      \<and> e \<noteq> GoogleError 409
      \<and> (get_zone conn n s = (Inl e, s1)
         \<or> get_zone conn n s = (Inr zone, s1)
           \<and> create_record conn r zone (default_record_type (p_record_type P))
             (PDict [(''ttl'', default_ttl (p_ttl P)),
                     (''rrdatas'', PList (map PStr (rrdatas (p_value P))))]) s1 = (Inl e, s2))
    \<longrightarrow> is_fatal (fst (main_dns conn uem P s))"
proof
  assume h: "p_command P = ''create'' \<and> p_name P = Some n \<and> n \<noteq> []
      \<and> \<not> no_trailing_dot (p_dns_name P)
      \<and> p_record P = Some r \<and> r \<noteq> [] \<and> last r = CHR ''.'' 
      \<and> e \<noteq> GoogleError 409
      \<and> (get_zone conn n s = (Inl e, s1)
         \<or> get_zone conn n s = (Inr zone, s1)
           \<and> create_record conn r zone (default_record_type (p_record_type P))
             (PDict [(''ttl'', default_ttl (p_ttl P)),
                     (''rrdatas'', PList (map PStr (rrdatas (p_value P))))]) s1 = (Inl e, s2))"
  then have cmd: "p_command P = ''create''" and name: "p_name P = Some n" "n \<noteq> []"
    and dns: "\<not> no_trailing_dot (p_dns_name P)"
    and rec: "p_record P = Some r" "r \<noteq> []" "last r = CHR ''.''"
    by simp_all
  have nd: "\<not> no_trailing_dot (p_record P)"
    using rec by (simp add: no_trailing_dot_def)
  from h cmd name rec show "is_fatal (fst (main_dns conn uem P s))"
    by (cases e)
      (auto simp: main_dns_dispatch [OF nd dns] dispatch_def cmd_create_def Let_def
        ending_def truthy_str_def stmt_defs map_of_finish_changed)
qed

lemma create_zone_fatal:
  "p_command P = ''create'' \<and> p_name P = Some n \<and> n \<noteq> []
      \<and> \<not> no_trailing_dot (p_dns_name P)
      \<and> (p_record P = None \<or> p_record P = Some [])
      \<and> e \<noteq> GoogleError 409
      \<and> create_zone conn (of_opt (p_dns_name P))
             (PDict [(''name'', PStr n),
                     (''description'',
                      PStr (if \<not> truthy_str (p_description P)
                            then ''Managed zone: '' @ pstr (p_dns_name P)
                            else pstr (p_description P)))]) s = (Inl e, s1)
    \<longrightarrow> is_fatal (fst (main_dns conn uem P s))"
proof
  assume h: "p_command P = ''create'' \<and> p_name P = Some n \<and> n \<noteq> []
      \<and> \<not> no_trailing_dot (p_dns_name P)
      \<and> (p_record P = None \<or> p_record P = Some [])
      \<and> e \<noteq> GoogleError 409
      \<and> create_zone conn (of_opt (p_dns_name P))
             (PDict [(''name'', PStr n),
                     (''description'',
                      PStr (if \<not> truthy_str (p_description P)
                            then ''Managed zone: '' @ pstr (p_dns_name P)
                            else pstr (p_description P)))]) s = (Inl e, s1)"
  then have cmd: "p_command P = ''create''" and name: "p_name P = Some n" "n \<noteq> []"
    and dns: "\<not> no_trailing_dot (p_dns_name P)"
    and rec: "p_record P = None \<or> p_record P = Some []"
    by simp_all
  have nd: "\<not> no_trailing_dot (p_record P)"
    using rec by (auto simp: no_trailing_dot_def)
  from h cmd name rec show "is_fatal (fst (main_dns conn uem P s))"
    by (cases e)
      (auto simp: main_dns_dispatch [OF nd dns] dispatch_def cmd_create_def Let_def
        ending_def truthy_str_def stmt_defs map_of_finish_changed)
qed

lemma create_cluster_fatal:
  "param G ''state'' = PStr ''present''
      \<and> cluster_create api (param G ''project_id'') (param G ''zone'') (make_cluster_body G) t
          = (Inl x, t1)
      \<and> x \<noteq> HttpError 409
    \<longrightarrow> main_gke api str_of G t =
          Some (Uncaught x, t1,
                [Create (param G ''project_id'') (param G ''zone'') (make_cluster_body G)
                   (Inl x)])"
  by (simp add: main_gke_create_raises)

text \<open>
  C3. When the create call raises with HTTP code 409 and the fetch of the handler
  returns the existing resource, the module exits 0 with the resource as payload (for
  DNS its \<open>to_dict\<close>, with \<^verbatim>\<open>command\<close> and \<^verbatim>\<open>changed\<close> added; for a cluster the
  response) and \<^verbatim>\<open>changed=False\<close>: for a record (one fetch of the record), for a zone
  (two fetches of the zone, lines 298 and 299), and for a cluster. Any other exception
  of the create call, and for a record any exception of the zone fetch that precedes
  it (the missing zone among them), ends the module fatally; in the cluster module it
  is the exception itself, uncaught. A fetched resource is taken to have no attribute
  or key named \<^verbatim>\<open>changed\<close>.
\<close>

theorem create_of_existing_resource:
  "(p_command P = ''create'' \<and> p_name P = Some n \<and> n \<noteq> []
      \<and> \<not> no_trailing_dot (p_dns_name P)
      \<and> p_record P = Some r \<and> r \<noteq> [] \<and> last r = CHR ''.'' 
      \<and> get_zone conn n s = (Inr zone, s1)
      \<and> create_record conn r zone (default_record_type (p_record_type P))
             (PDict [(''ttl'', default_ttl (p_ttl P)),
                     (''rrdatas'', PList (map PStr (rrdatas (p_value P))))]) s1 = (Inl (GoogleError 409), s2)
      \<and> get_record conn n (default_record_type (p_record_type P) @ '':'' @ r) s2 = (Inr obj, s3)
      \<and> to_dict obj = Inr d \<and> map_of d ''changed'' = None
    \<longrightarrow> main_dns conn uem P s =
          (Exit0 (finish ''create'' d),
           \<lparr>remote = s3,
            calls = [(GetZone n, Inr zone),
                     (CreateRecord r zone (default_record_type (p_record_type P))
                        (PDict [(''ttl'', default_ttl (p_ttl P)),
                     (''rrdatas'', PList (map PStr (rrdatas (p_value P))))]),
                      Inl (GoogleError 409)),
                     (GetRecord n (default_record_type (p_record_type P) @ '':'' @ r), Inr obj)],
            output_var = d\<rparr>)
        \<and> map_of (finish ''create'' d) ''changed'' = Some (PBool False))
   \<and> (p_command P = ''create'' \<and> p_name P = Some n \<and> n \<noteq> []
      \<and> \<not> no_trailing_dot (p_dns_name P)
      \<and> (p_record P = None \<or> p_record P = Some [])
      \<and> create_zone conn (of_opt (p_dns_name P))
             (PDict [(''name'', PStr n),
                     (''description'',
                      PStr (if \<not> truthy_str (p_description P)
                            then ''Managed zone: '' @ pstr (p_dns_name P)
                            else pstr (p_description P)))]) s = (Inl (GoogleError 409), s1)
      \<and> get_zone conn n s1 = (Inr zone, s2) \<and> get_zone conn n s2 = (Inr obj, s3)
      \<and> to_dict obj = Inr d \<and> map_of d ''changed'' = None
    \<longrightarrow> main_dns conn uem P s =
          (Exit0 (finish ''create'' d),
           \<lparr>remote = s3,
            calls = [(CreateZone (of_opt (p_dns_name P))
                        (PDict [(''name'', PStr n),
                     (''description'',
                      PStr (if \<not> truthy_str (p_description P)
                            then ''Managed zone: '' @ pstr (p_dns_name P)
                            else pstr (p_description P)))]),
                      Inl (GoogleError 409)),
                     (GetZone n, Inr zone), (GetZone n, Inr obj)],
            output_var = d\<rparr>)
        \<and> map_of (finish ''create'' d) ''changed'' = Some (PBool False))
   \<and> (param G ''state'' = PStr ''present''
      \<and> cluster_create api (param G ''project_id'') (param G ''zone'') (make_cluster_body G) t
          = (Inl (HttpError 409), t1)
      \<and> fetch api G t1 = (Inr resp, t2) \<and> map_of resp ''changed'' = None
    \<longrightarrow> main_gke api str_of G t =
          Some (Exit0 ((''changed'', PBool False) # resp), t2,
                [Create (param G ''project_id'') (param G ''zone'') (make_cluster_body G)
                   (Inl (HttpError 409)),
                 Get (param G ''project_id'') (param G ''zone'') (param G ''name'')
                   (Inr resp)]))
   \<and> (p_command P = ''create'' \<and> p_name P = Some n \<and> n \<noteq> []
      \<and> \<not> no_trailing_dot (p_dns_name P)
      \<and> p_record P = Some r \<and> r \<noteq> [] \<and> last r = CHR ''.'' 
      \<and> e \<noteq> GoogleError 409
      \<and> (get_zone conn n s = (Inl e, s1)
         \<or> get_zone conn n s = (Inr zone, s1)
           \<and> create_record conn r zone (default_record_type (p_record_type P))
             (PDict [(''ttl'', default_ttl (p_ttl P)),
                     (''rrdatas'', PList (map PStr (rrdatas (p_value P))))]) s1 = (Inl e, s2))
    \<longrightarrow> is_fatal (fst (main_dns conn uem P s)))
   \<and> (p_command P = ''create'' \<and> p_name P = Some n \<and> n \<noteq> []
      \<and> \<not> no_trailing_dot (p_dns_name P)
      \<and> (p_record P = None \<or> p_record P = Some [])
      \<and> e \<noteq> GoogleError 409
      \<and> create_zone conn (of_opt (p_dns_name P))
             (PDict [(''name'', PStr n),
                     (''description'',
                      PStr (if \<not> truthy_str (p_description P)
                            then ''Managed zone: '' @ pstr (p_dns_name P)
                            else pstr (p_description P)))]) s = (Inl e, s1)
    \<longrightarrow> is_fatal (fst (main_dns conn uem P s)))
   \<and> (param G ''state'' = PStr ''present''
      \<and> cluster_create api (param G ''project_id'') (param G ''zone'') (make_cluster_body G) t
          = (Inl x, t1)
      \<and> x \<noteq> HttpError 409
    \<longrightarrow> main_gke api str_of G t =
          Some (Uncaught x, t1,
                [Create (param G ''project_id'') (param G ''zone'') (make_cluster_body G)
                   (Inl x)]))"
  by (intro conjI create_record_conflict create_zone_conflict create_cluster_conflict
      create_record_fatal create_zone_fatal create_cluster_fatal)

text \<open>The documented zone created where it exists; a record created in a zone that
  does not exist; a cluster create answered with HTTP 500.\<close>

theorem create_of_existing_resource_witness:
  "fst (main_dns sim_dns sim_uem create_example_zone one_zone) =
     Exit0 [(''id'', PStr ''my-example-zone''), (''domain'', PStr ''example.com.''),
            (''command'', PStr ''create''), (''changed'', PBool False)]
   \<and> is_fatal (fst (main_dns sim_dns sim_uem
         (create_example_zone\<lparr>p_record := Some ''www.example.com.''\<rparr>) empty_provider))
   \<and> main_gke script_api sim_str (cluster_params ''present'' True) [Inl (HttpError 500)] =
       Some (Uncaught (HttpError 500), [],
             [Create (PStr ''my-project'') (PStr ''us-central1-f'')
                (make_cluster_body (cluster_params ''present'' True)) (Inl (HttpError 500))])"
proof -
  let ?d = "[(''id'', PStr ''my-example-zone''), (''domain'', PStr ''example.com.'')]"
  note ev = create_example_zone_def no_params_def no_trailing_dot_def sim_dns_def
    one_zone_def empty_provider_def example_zone_def zone_obj_def truthy_str_def
  have "main_dns sim_dns sim_uem create_example_zone one_zone =
          (Exit0 (finish ''create'' ?d),
           \<lparr>remote = one_zone,
            calls = [(CreateZone (of_opt (p_dns_name create_example_zone))
                        (PDict [(''name'', PStr ''my-example-zone''),
                     (''description'',
                      PStr (if \<not> truthy_str (p_description create_example_zone)
                            then ''Managed zone: '' @ pstr (p_dns_name create_example_zone)
                            else pstr (p_description create_example_zone)))]),
                      Inl (GoogleError 409)),
                     (GetZone ''my-example-zone'', Inr example_zone),
                     (GetZone ''my-example-zone'', Inr example_zone)],
            output_var = ?d\<rparr>)
        \<and> map_of (finish ''create'' ?d) ''changed'' = Some (PBool False)"
    by (rule create_of_existing_resource [where P = create_example_zone
          and n = "''my-example-zone''" and conn = sim_dns and s = one_zone
          and ?s1.0 = one_zone and ?s2.0 = one_zone and ?s3.0 = one_zone
          and zone = example_zone and obj = example_zone and d = ?d and uem = sim_uem,
          THEN conjunct2, THEN conjunct1, THEN mp])
      (simp add: ev)
  then have first: "fst (main_dns sim_dns sim_uem create_example_zone one_zone) =
     Exit0 [(''id'', PStr ''my-example-zone''), (''domain'', PStr ''example.com.''),
            (''command'', PStr ''create''), (''changed'', PBool False)]"
    by (simp add: finish_def)
  have second: "is_fatal (fst (main_dns sim_dns sim_uem
         (create_example_zone\<lparr>p_record := Some ''www.example.com.''\<rparr>) empty_provider))"
    by (rule create_of_existing_resource [where
          P = "create_example_zone\<lparr>p_record := Some ''www.example.com.''\<rparr>"
          and n = "''my-example-zone''" and r = "''www.example.com.''" and conn = sim_dns
          and s = empty_provider and ?s1.0 = empty_provider and e = ZoneDoesNotExistError
          and uem = sim_uem,
          THEN conjunct2, THEN conjunct2, THEN conjunct2, THEN conjunct1, THEN mp])
      (simp add: ev)
  have third: "main_gke script_api sim_str (cluster_params ''present'' True)
         [Inl (HttpError 500)] =
       Some (Uncaught (HttpError 500), [],
             [Create (PStr ''my-project'') (PStr ''us-central1-f'')
                (make_cluster_body (cluster_params ''present'' True)) (Inl (HttpError 500))])"
    using create_of_existing_resource [where G = "cluster_params ''present'' True"
        and api = script_api and t = "[Inl (HttpError 500)]" and ?t1.0 = "[]"
        and x = "HttpError 500" and str_of = sim_str,
        THEN conjunct2, THEN conjunct2, THEN conjunct2, THEN conjunct2, THEN conjunct2]
    by (simp add: cluster_params_def param_def script_api_def)
  from first second third show ?thesis by simp
qed

subsection \<open>The mapping a failure carries\<close>

lemma sound_basic:
  "sound (return x)" "sound skip" "sound (raise e)" "sound (fail_json msg)"
  "sound (invoke c f)" "sound (invoke_iter c g)" "sound (assign_output r)"
  "sound (set_item k v)"
  by (auto simp: sound_def stmt_defs split: prod.splits sum.splits)

lemma sound_bind: "sound m \<Longrightarrow> (\<And>x. sound (f x)) \<Longrightarrow> sound (bind m f)"
  by (auto simp: sound_def bind_def split: prod.splits res.splits)

lemma sound_seq: "sound m \<Longrightarrow> sound n \<Longrightarrow> sound (seq m n)"
  by (simp add: seq_def sound_bind)

lemma sound_catch: "sound m \<Longrightarrow> (\<And>e. sound (h e)) \<Longrightarrow> sound (catch m h)"
  by (auto simp: sound_def catch_def split: prod.splits res.splits)

lemma sound_if: "sound a \<Longrightarrow> sound b \<Longrightarrow> sound (if c then a else b)"
  by simp

lemmas sound_intros = sound_basic sound_bind sound_seq sound_catch sound_if

lemma sound_delete_handler: "sound (delete_handler uem P rt e)"
  by (cases e) (auto simp: delete_handler_def intro!: sound_intros split: option.splits)

lemma sound_dispatch: "sound (dispatch conn uem P)"
  unfolding dispatch_def cmd_list_def cmd_get_def cmd_create_def cmd_delete_def Let_def
  by (auto intro!: sound_intros sound_delete_handler split: dns_exc.splits option.splits)

lemma main_dns_fail_shape:
  assumes "main_dns conn uem P s = (Fail kw, w)"
  shows "\<exists>msg. kw = [(''msg'', PStr msg), (''changed'', PBool False)]"
proof -
  have "sound (seq (if no_trailing_dot (p_record P)
             then fail_json ''Must specify a valid DNS record name''
             else skip)
          (seq (if no_trailing_dot (p_dns_name P)
                then fail_json ''Must specify a valid dns_name''
                else skip)
             (dispatch conn uem P)))"
    by (intro sound_intros sound_dispatch)
  with assms show ?thesis
    by (auto simp: main_dns_def ending_def sound_def split: prod.splits res.splits)
qed


subsection \<open>When \<^verbatim>\<open>changed\<close> is true: the DNS module\<close>

lemma to_dict_changed:
  assumes "to_dict v = Inr d" "no_changed_attr (Inr v)"
  shows "map_of d ''changed'' = None"
  using assms
  by (cases v)
    (auto simp: Let_def update_conv' delete_conv' split: option.splits if_splits sum.splits)

lemma unmarked_snoc:
  "unmarked (tr @ [(c, r)]) \<longleftrightarrow> unmarked tr \<and> no_changed_attr r"
  by (simp add: unmarked_def)

lemma mutated_snoc: "mutated (tr @ [(c, r)]) \<longleftrightarrow> mutated tr \<or> accepted (c, r)"
  by (simp add: mutated_def)

lemma accepted_query [simp]: "is_query c \<Longrightarrow> accepted (c, r) = False"
  by (cases c) simp_all

lemma accepted_raise [simp]: "accepted (c, Inl e) = False"
  by (cases c) simp_all

lemma accepted_create [simp]: "is_create c \<Longrightarrow> accepted (c, Inr v) = True"
  by (cases c) simp_all

lemma accepted_delete [simp]: "is_delete c \<Longrightarrow> accepted (c, Inr v) = truthy v"
  by (cases c) simp_all


lemma collect_Inl: "collect rs = Inl e \<Longrightarrow> Inl e \<in> set rs"
  by (induction rs rule: collect.induct) (auto split: sum.splits)

lemma to_dict_raises: "to_dict v = Inl e \<Longrightarrow> e = AttributeError"
proof (induction v arbitrary: e rule: to_dict.induct)
  case (1 lc_obj)
  then show ?case
    by (auto simp: Let_def dest!: collect_Inl
        split: sum.splits pyval.splits option.splits if_splits)
next
  case (2 attrs)
  then show ?case
    by (auto simp: Let_def split: option.splits if_splits sum.splits)
qed simp_all

lemma clean_settled: "clean w \<Longrightarrow> settled w"
  by (auto simp: clean_def settled_def)

lemma triple_bind:
  assumes "triple A m B E" "\<And>x. triple (B x) (f x) Q E"
  shows "triple A (bind m f) Q E"
  unfolding triple_def bind_def
proof (intro allI impI)
  fix w assume "A w"
  obtain r w' where m: "m w = (r, w')" by (cases "m w")
  from assms(1) \<open>A w\<close> m have r: "case r of Returned x \<Rightarrow> B x w' | Raised e \<Rightarrow> E e w'
      | Failed kw \<Rightarrow> True"
    by (auto simp: triple_def)
  show "case (case m w of (Returned x, w') \<Rightarrow> f x w' | (Raised e, w') \<Rightarrow> (Raised e, w')
         | (Failed kw, w') \<Rightarrow> (Failed kw, w')) of
          (Returned x, w') \<Rightarrow> Q x w' | (Raised e, w') \<Rightarrow> E e w' | (Failed kw, w') \<Rightarrow> True"
  proof (cases r)
    case (Returned x)
    with r assms(2) [of x] m show ?thesis by (auto simp: triple_def)
  next
    case (Raised e)
    with r m show ?thesis by simp
  next
    case (Failed kw)
    with m show ?thesis by simp
  qed
qed

lemma triple_seq:
  assumes "triple A m (\<lambda>u. B) E" "triple B n Q E"
  shows "triple A (seq m n) Q E"
  unfolding seq_def using assms by (rule triple_bind)

lemma triple_catch:
  assumes "triple A m Q E'" "\<And>e. triple (E' e) (h e) Q E"
  shows "triple A (catch m h) Q E"
  unfolding triple_def catch_def
proof (intro allI impI)
  fix w assume "A w"
  obtain r w' where m: "m w = (r, w')" by (cases "m w")
  from assms(1) \<open>A w\<close> m have r: "case r of Returned x \<Rightarrow> Q x w' | Raised e \<Rightarrow> E' e w'
      | Failed kw \<Rightarrow> True"
    by (auto simp: triple_def)
  show "case (case m w of (Returned x, w') \<Rightarrow> (Returned x, w') | (Raised e, w') \<Rightarrow> h e w'
         | (Failed kw, w') \<Rightarrow> (Failed kw, w')) of
          (Returned x, w') \<Rightarrow> Q x w' | (Raised e, w') \<Rightarrow> E e w' | (Failed kw, w') \<Rightarrow> True"
  proof (cases r)
    case (Returned x)
    with r m show ?thesis by simp
  next
    case (Raised e)
    with r assms(2) [of e] m show ?thesis by (auto simp: triple_def)
  next
    case (Failed kw)
    with m show ?thesis by simp
  qed
qed

lemma triple_post:
  assumes "triple A m Q' E'" "\<And>x w. Q' x w \<Longrightarrow> Q x w" "\<And>e w. E' e w \<Longrightarrow> E e w"
  shows "triple A m Q E"
  unfolding triple_def
proof (intro allI impI)
  fix w assume "A w"
  obtain r w' where m: "m w = (r, w')" by (cases "m w")
  from assms(1) \<open>A w\<close> m have "case r of Returned x \<Rightarrow> Q' x w' | Raised e \<Rightarrow> E' e w'
      | Failed kw \<Rightarrow> True"
    by (auto simp: triple_def)
  with assms(2,3) m
  show "case m w of (Returned x, w') \<Rightarrow> Q x w' | (Raised e, w') \<Rightarrow> E e w'
          | (Failed kw, w') \<Rightarrow> True"
    by (cases r) simp_all
qed

lemma triple_fail: "triple A (fail_json msg) Q E"
  by (simp add: triple_def fail_json_def)

lemma triple_skip: "triple A skip (\<lambda>u. A) E"
  by (simp add: triple_def skip_def return_def)

lemma triple_raise: "triple A (raise e) Q (\<lambda>e w. True)"
  by (simp add: triple_def raise_def)

lemma triple_guard: "triple A (if b then fail_json msg else skip) (\<lambda>u. A) E"
  by (simp add: triple_fail triple_skip)

lemma triple_query: "is_query c \<Longrightarrow> triple clean (invoke c f) fresh exc"
  by (auto simp: triple_def invoke_def clean_def fresh_def exc_def unmarked_snoc mutated_snoc
      split: prod.splits sum.splits)

lemma triple_query_clean: "is_query c \<Longrightarrow> triple clean (invoke c f) (\<lambda>v. clean) exc"
  by (auto simp: triple_def invoke_def clean_def exc_def unmarked_snoc mutated_snoc
      split: prod.splits sum.splits)

lemma triple_iter: "is_query c \<Longrightarrow> triple clean (invoke_iter c f) (\<lambda>xs. clean) exc"
  by (auto simp: triple_def invoke_iter_def clean_def exc_def unmarked_snoc mutated_snoc
      split: prod.splits sum.splits)

lemma triple_create: "is_create c \<Longrightarrow> triple clean (invoke c f) (\<lambda>v. accepted_now) exc"
  by (auto simp: triple_def invoke_def clean_def accepted_now_def exc_def unmarked_snoc
      mutated_snoc split: prod.splits sum.splits)

lemma triple_delete:
  "is_delete c \<Longrightarrow> triple clean (invoke c f) (\<lambda>v w. truthy v \<longrightarrow> accepted_now w) exc"
  by (auto simp: triple_def invoke_def clean_def accepted_now_def exc_def unmarked_snoc
      mutated_snoc split: prod.splits sum.splits)

lemma triple_assign_fresh: "triple (fresh v) (assign_output (to_dict v)) (\<lambda>u. clean) exc"
  by (auto simp: triple_def assign_output_def raise_def clean_def fresh_def exc_def
      split: sum.splits dest: to_dict_changed)

lemma triple_assign_list:
  "triple clean (assign_output (to_dict (PList xs))) (\<lambda>u. clean) exc"
  by (auto simp: triple_def assign_output_def raise_def clean_def exc_def
      split: sum.splits)

lemma triple_assign_accepted:
  "triple accepted_now (assign_output (to_dict v)) (\<lambda>u. accepted_now) exc"
  by (auto simp: triple_def assign_output_def raise_def accepted_now_def exc_def
      split: sum.splits dest: to_dict_raises)

lemma triple_mark:
  "triple accepted_now (set_item ''changed'' (PBool True)) (\<lambda>u. settled) E"
  by (auto simp: triple_def set_item_def accepted_now_def settled_def update_conv')

lemma triple_set:
  "k \<noteq> ''changed'' \<Longrightarrow> triple clean (set_item k v) (\<lambda>u. clean) E"
  by (auto simp: triple_def set_item_def clean_def update_conv')

lemma triple_after_delete:
  "triple (\<lambda>w. truthy ok \<longrightarrow> accepted_now w)
     (seq (if \<not> truthy ok then fail_json msg else skip) (set_item ''changed'' (PBool True)))
     (\<lambda>u. settled) E"
  by (auto simp: triple_def stmt_defs accepted_now_def settled_def update_conv')

lemma triple_refetch:
  "is_query c \<Longrightarrow>
   triple clean (bind (invoke c f) (\<lambda>r. assign_output (to_dict r))) (\<lambda>u. clean) exc"
  by (rule triple_bind [OF triple_query triple_assign_fresh])

lemma exc_coded: "exc (GoogleError n) = clean"
  by (simp add: exc_def fun_eq_iff)

lemma exc_named: "exc ZoneDoesNotExistError = clean" "exc RecordDoesNotExistError = clean"
  by (simp_all add: exc_def fun_eq_iff)


lemma triple_if:
  "triple A a Q E \<Longrightarrow> triple A b Q E \<Longrightarrow> triple A (if c then a else b) Q E"
  by simp

lemma refetch_settled:
  "is_query c \<Longrightarrow>
   triple clean (bind (invoke c f) (\<lambda>r. assign_output (to_dict r)))
     (\<lambda>u. settled) (\<lambda>e w. True)"
  by (rule triple_post [OF triple_refetch]) (simp_all add: clean_settled)

lemma refetch_twice_settled:
  "is_query c \<Longrightarrow> is_query c' \<Longrightarrow>
   triple clean (bind (invoke c f) (\<lambda>zone. bind (invoke c' f') (\<lambda>r. assign_output (to_dict r))))
     (\<lambda>u. settled) (\<lambda>e w. True)"
  by (rule triple_post [OF triple_bind [OF triple_query_clean triple_refetch]])
    (simp_all add: clean_settled)

lemma cmd_list_clean: "triple clean (cmd_list conn uem P) (\<lambda>u. clean) E"
  unfolding cmd_list_def
  apply (rule triple_catch [where E' = exc])
   apply (rule triple_if)
    apply (rule triple_bind [OF triple_query_clean])
     apply simp
    apply (rule triple_bind [OF triple_iter])
     apply simp
    apply (rule triple_assign_list)
   apply (rule triple_bind [OF triple_iter])
    apply simp
   apply (rule triple_assign_list)
  subgoal for e by (cases e) (simp_all add: triple_fail)
  done

lemma cmd_get_clean: "triple clean (cmd_get conn uem P) (\<lambda>u. clean) E"
  unfolding cmd_get_def Let_def
  apply (rule triple_seq [OF triple_guard])
  apply (rule triple_if)
   apply (rule triple_catch [OF triple_refetch])
    apply simp
  subgoal for e by (cases e) (simp_all add: triple_fail)
  apply (rule triple_catch [OF triple_refetch])
   apply simp
  subgoal for e by (cases e) (simp_all add: triple_fail)
  done

lemma cmd_create_settled:
  "triple clean (cmd_create conn uem P) (\<lambda>u. settled) (\<lambda>e w. True)"
  unfolding cmd_create_def Let_def
  apply (rule triple_seq [OF triple_guard])
  apply (rule triple_if)
   apply (rule triple_catch [where E' = exc])
    apply (rule triple_bind [OF triple_query_clean])
     apply simp
    apply (rule triple_bind [OF triple_create])
     apply simp
    apply (rule triple_seq [OF triple_assign_accepted triple_mark])
  subgoal for e
    by (cases e) (simp_all add: triple_fail triple_raise exc_coded refetch_settled)
  apply (rule triple_catch [where E' = exc])
   apply (rule triple_bind [OF triple_create])
    apply simp
   apply (rule triple_seq [OF triple_assign_accepted triple_mark])
  subgoal for e
    by (cases e) (simp_all add: triple_fail triple_raise exc_coded refetch_twice_settled)
  done

lemma delete_handler_settled:
  "triple (exc e) (delete_handler uem P rt e) (\<lambda>u. settled) (\<lambda>e w. True)"
  by (cases e)
    (auto simp: triple_def delete_handler_def stmt_defs exc_def clean_def settled_def
      update_conv')

lemma cmd_delete_settled:
  "triple clean (cmd_delete conn uem P) (\<lambda>u. settled) (\<lambda>e w. True)"
  unfolding cmd_delete_def Let_def
  apply (rule triple_seq [OF triple_guard])
  apply (rule triple_if)
   apply (rule triple_catch [where E' = exc])
    apply (rule triple_bind [OF triple_query])
     apply simp
    apply (rule triple_seq [OF triple_assign_fresh])
    apply (rule triple_bind [OF triple_delete])
     apply simp
    apply (rule triple_after_delete)
   apply (rule delete_handler_settled)
  apply (rule triple_catch [where E' = exc])
   apply (rule triple_bind [OF triple_query])
    apply simp
   apply (rule triple_seq [OF triple_assign_fresh])
   apply (rule triple_bind [OF triple_delete])
    apply simp
   apply (rule triple_after_delete)
  apply (rule delete_handler_settled)
  done

lemma dispatch_settled:
  "triple clean (dispatch conn uem P) (\<lambda>u. settled) (\<lambda>e w. True)"
  unfolding dispatch_def
  apply (rule triple_if)
   apply (rule triple_post [OF cmd_list_clean [where E = "\<lambda>e w. True"]])
    apply (simp_all add: clean_settled) [2]
  apply (rule triple_if)
   apply (rule triple_post [OF cmd_get_clean [where E = "\<lambda>e w. True"]])
    apply (simp_all add: clean_settled) [2]
  apply (rule triple_if)
   apply (rule cmd_create_settled)
  apply (rule triple_if)
   apply (rule cmd_delete_settled)
  apply (rule triple_fail)
  done

lemma main_dns_settled:
  assumes "main_dns conn uem P s = (Exit0 out, w)"
  shows "settled w \<and> out = finish (p_command P) (output_var w)"
proof -
  have "triple clean
     (seq (if no_trailing_dot (p_record P)
           then fail_json ''Must specify a valid DNS record name''
           else skip)
        (seq (if no_trailing_dot (p_dns_name P)
              then fail_json ''Must specify a valid dns_name''
              else skip)
           (dispatch conn uem P)))
     (\<lambda>u. settled) (\<lambda>e w. True)"
    by (intro triple_seq [OF triple_guard] dispatch_settled)
  moreover have "clean \<lparr>remote = s, calls = [], output_var = []\<rparr>"
    by (simp add: clean_def mutated_def)
  ultimately show ?thesis
    using assms
    by (auto simp: main_dns_def ending_def triple_def split: prod.splits res.splits)
qed

lemma main_dns_exit_changed:
  assumes "main_dns conn uem P s = (Exit0 out, w)" "unmarked (calls w)"
  shows "map_of out ''changed'' = Some (PBool (mutated (calls w)))"
  using main_dns_settled [OF assms(1)] assms(2)
  by (simp add: settled_def map_of_finish_changed)


lemma main_dns_query_unchanged:
  assumes "main_dns conn uem P s = (Exit0 out, w)" "unmarked (calls w)"
    and "p_command P = ''list'' \<or> p_command P = ''get''"
  shows "map_of out ''changed'' = Some (PBool False)"
proof -
  have d: "triple clean (dispatch conn uem P) (\<lambda>u. clean) (\<lambda>e w. True)"
    using assms(3) by (auto simp: dispatch_def cmd_list_clean cmd_get_clean)
  have "triple clean
     (seq (if no_trailing_dot (p_record P)
           then fail_json ''Must specify a valid DNS record name''
           else skip)
        (seq (if no_trailing_dot (p_dns_name P)
              then fail_json ''Must specify a valid dns_name''
              else skip)
           (dispatch conn uem P)))
     (\<lambda>u. clean) (\<lambda>e w. True)"
    by (intro triple_seq [OF triple_guard] d)
  moreover have "clean \<lparr>remote = s, calls = [], output_var = []\<rparr>"
    by (simp add: clean_def mutated_def)
  ultimately have "clean w \<and> out = finish (p_command P) (output_var w)"
    using assms(1)
    by (auto simp: main_dns_def ending_def triple_def split: prod.splits res.splits)
  with assms(2) show ?thesis
    by (simp add: clean_def map_of_finish_changed)
qed

subsection \<open>When \<^verbatim>\<open>changed\<close> is true: the cluster module\<close>

lemma poll_present_ends:
  assumes ret: "poll_present api str_of P polling resp s tr = Some (x, s', tr')"
  shows "(\<exists>ext. tr' = tr @ ext)
         \<and> (\<forall>kw. x = Inl (Fail kw) \<longrightarrow> (\<exists>m. kw = [(''msg'', PStr m)]))
         \<and> (\<forall>out. x \<noteq> Inl (Exit0 out))"
proof -
  let ?Q = "\<lambda>((((((api :: 'a gke_api, str_of :: pyval \<Rightarrow> string), P :: pydict), polling :: bool),
        resp :: pydict), s :: 'a), tr :: gke_event list)
      (y :: (gke_exc outcome + pydict) \<times> 'a \<times> gke_event list).
      (\<exists>ext. snd (snd y) = tr @ ext)
      \<and> (\<forall>kw. fst y = Inl (Fail kw) \<longrightarrow> (\<exists>m. kw = [(''msg'', PStr m)]))
      \<and> (\<forall>out. fst y \<noteq> Inl (Exit0 out))"
  have "?Q ((((((api, str_of), P), polling), resp), s), tr) (x, s', tr')"
  proof (rule poll_present.raw_induct [where Pa = ?Q, OF _ ret], goal_cases)
    case (1 f api str_of P polling resp s tr y)
    have IH: "\<And>polling resp s1 tr1 y. f api str_of P polling resp s1 tr1 = Some y \<Longrightarrow>
        (\<exists>ext. snd (snd y) = tr1 @ ext)
        \<and> (\<forall>kw. fst y = Inl (Fail kw) \<longrightarrow> (\<exists>m. kw = [(''msg'', PStr m)]))
        \<and> (\<forall>out. fst y \<noteq> Inl (Exit0 out))"
      using 1(1) by fastforce
    show ?case
      using 1(2)
      by (auto simp: Let_def split: if_splits prod.splits sum.splits option.splits dest!: IH)
  qed
  then show ?thesis by simp
qed

lemma poll_absent_ends:
  assumes ret: "poll_absent api P polling s tr = Some (x, s', tr')"
  shows "(\<exists>ext. tr' = tr @ ext) \<and> (x = Inr () \<or> (\<exists>e. x = Inl (Uncaught e)))"
proof -
  let ?Q = "\<lambda>((((api :: 'a gke_api, P :: pydict), polling :: bool), s :: 'a), tr :: gke_event list)
      (y :: (gke_exc outcome + unit) \<times> 'a \<times> gke_event list).
      (\<exists>ext. snd (snd y) = tr @ ext) \<and> (fst y = Inr () \<or> (\<exists>e. fst y = Inl (Uncaught e)))"
  have "?Q ((((api, P), polling), s), tr) (x, s', tr')"
  proof (rule poll_absent.raw_induct [where Pa = ?Q, OF _ ret], goal_cases)
    case (1 f api P polling s tr y)
    have IH: "\<And>polling s1 tr1 y. f api P polling s1 tr1 = Some y \<Longrightarrow>
        (\<exists>ext. snd (snd y) = tr1 @ ext) \<and> (fst y = Inr () \<or> (\<exists>e. fst y = Inl (Uncaught e)))"
      using 1(1) by fastforce
    show ?case
      using 1(2)
      by (auto simp: Let_def split: if_splits prod.splits sum.splits gke_exc.splits dest!: IH)
  qed
  then show ?thesis by simp
qed


lemma present_tail_ends:
  assumes "present_tail api str_of P changed polling resp s tr = Some (oc, s', tr')"
  shows "(\<exists>ext. tr' = tr @ ext)
         \<and> (\<forall>kw. oc = Fail kw \<longrightarrow> (\<exists>m. kw = [(''msg'', PStr m)]))
         \<and> (\<forall>out. oc = Exit0 out \<longrightarrow> map_of out ''changed'' = Some (PBool changed))"
proof (cases "poll_present api str_of P polling resp s tr")
  case None
  with assms show ?thesis by (simp add: present_tail_def)
next
  case (Some y)
  obtain x s1 tr1 where y: "y = (x, s1, tr1)" by (cases y)
  from poll_present_ends [OF Some [unfolded y]] assms Some y show ?thesis
    by (cases x) (auto simp: present_tail_def exit_json_def split: if_splits)
qed

lemma present_handler_ends:
  assumes "present_handler api str_of P e s tr = Some (oc, s', tr')"
  shows "(\<exists>ext. tr' = tr @ ext)
         \<and> (\<forall>kw. oc = Fail kw \<longrightarrow> (\<exists>m. kw = [(''msg'', PStr m)]))
         \<and> (\<forall>out. oc = Exit0 out \<longrightarrow> map_of out ''changed'' = Some (PBool False))"
  using assms
  by (auto simp: present_handler_def Let_def
      split: gke_exc.splits if_splits prod.splits sum.splits dest!: present_tail_ends)

lemma state_present_ends:
  assumes "state_present api str_of P s = Some (oc, s', tr')"
  shows "(\<forall>kw. oc = Fail kw \<longrightarrow> (\<exists>m. kw = [(''msg'', PStr m)]))
         \<and> (\<forall>out. oc = Exit0 out \<longrightarrow>
               map_of out ''changed'' = Some (PBool (cluster_mutated tr')))"
  using assms
  by (auto simp: state_present_def Let_def split: prod.splits sum.splits
      dest!: present_tail_ends present_handler_ends)

lemma state_absent_ends:
  assumes "state_absent api P s = Some (oc, s', tr')"
  shows "(\<forall>kw. oc \<noteq> Fail kw)
         \<and> (\<forall>out. oc = Exit0 out \<longrightarrow>
               map_of out ''changed'' = Some (PBool (cluster_mutated tr')))"
  using assms
  by (auto simp: state_absent_def Let_def exit_json_def poll_absent_stop
      split: prod.splits sum.splits gke_exc.splits if_splits option.splits
      dest!: poll_absent_ends)

lemma main_gke_ends:
  assumes "main_gke api str_of P s = Some (oc, s', tr')"
  shows "(\<forall>kw. oc = Fail kw \<longrightarrow> (\<exists>m. kw = [(''msg'', PStr m)]))
         \<and> (\<forall>out. oc = Exit0 out \<longrightarrow>
               map_of out ''changed'' = Some (PBool (cluster_mutated tr')))"
  using assms state_present_ends [of api str_of P s oc s' tr']
    state_absent_ends [of api P s oc s' tr']
  by (auto simp: main_gke_def split: if_splits)

end
